theory Spec2Isabelle
  imports Complex_Main "HOL-Library.Sublist"
begin

section \<open>Cost optimizer: a shallow embedding of \<open>cost_optimizer.py\<close>\<close>

text \<open>
  The module is one entry point, \<open>handler\<close>, and six helper functions.  The external
  services (billing, compute inventory, database inventory, messaging, the clock) are
  collaborators: the model takes their answers as functions of the request and records
  every call and every \<open>print\<close> in an event list, so that "was the notifier called" is a
  statement about that list.  Exceptions are values: a function that can raise returns
  \<open>exn + 'a\<close>, with \<open>Inl\<close> for the exception.
\<close>

subsection \<open>Text\<close>

text \<open>
  Python \<open>str\<close> values are held as \<open>string\<close>; the one non-ASCII character of the module,
  the bullet of the summary lines, is held as its three UTF-8 bytes.
\<close>

definition nl :: string where
  "nl = [CHR 0x0A]"

definition quote :: string where
  "quote = [CHR 0x27]"

definition bullet :: string where
  "bullet = [CHR 0xE2, CHR 0x80, CHR 0xA2]"

definition digit_char :: "nat \<Rightarrow> char" where
  "digit_char n = ''0123456789'' ! (n mod 10)"

text \<open>\<open>str(n)\<close> for a natural number: its decimal digits.\<close>

function str_nat :: "nat \<Rightarrow> string" where
  "str_nat n = (if n < 10 then [digit_char n] else str_nat (n div 10) @ [digit_char n])"
  by pat_completeness auto
termination
  by (relation "measure id") auto

declare str_nat.simps [simp del]

text \<open>\<open>str(i)\<close> and \<open>f"{i}"\<close> for a Python \<open>int\<close>.\<close>

definition str_int :: "int \<Rightarrow> string" where
  "str_int i = (if i < 0 then ''-'' @ str_nat (nat (- i)) else str_nat (nat i))"

text \<open>\<open>s in t\<close> for two strings: \<open>s\<close> occurs in \<open>t\<close> as a contiguous run.\<close>

fun str_in :: "string \<Rightarrow> string \<Rightarrow> bool" where
  "str_in s [] = (s = [])"
| "str_in s (c # cs) = (prefix s (c # cs) \<or> str_in s cs)"

text \<open>\<open>t.startswith(s)\<close>.\<close>

definition startswith :: "string \<Rightarrow> string \<Rightarrow> bool" where
  "startswith t s = prefix s t"

text \<open>\<open>s.replace('_', ' ')\<close>.\<close>

definition replace_underscores :: "string \<Rightarrow> string" where
  "replace_underscores s = map (\<lambda>c. if c = CHR ''_'' then CHR '' '' else c) s"

definition uppers :: string where
  "uppers = ''ABCDEFGHIJKLMNOPQRSTUVWXYZ''"

definition lowers :: string where
  "lowers = ''abcdefghijklmnopqrstuvwxyz''"

definition to_lower :: "char \<Rightarrow> char" where
  "to_lower c = (case map_of (zip uppers lowers) c of None \<Rightarrow> c | Some d \<Rightarrow> d)"

definition to_upper :: "char \<Rightarrow> char" where
  "to_upper c = (case map_of (zip lowers uppers) c of None \<Rightarrow> c | Some d \<Rightarrow> d)"

text \<open>
  \<open>s.title()\<close> on ASCII text: a letter that follows a letter is lower-cased, any other
  letter is upper-cased, and every other character is kept and ends the word.  The flag is
  "the previous character was a letter".
\<close>

fun title_from :: "bool \<Rightarrow> string \<Rightarrow> string" where
  "title_from prev [] = []"
| "title_from prev (c # cs) =
     (if c \<in> set lowers then (if prev then c else to_upper c) # title_from True cs
      else if c \<in> set uppers then (if prev then to_lower c else c) # title_from True cs
      else c # title_from False cs)"

definition title :: "string \<Rightarrow> string" where
  "title s = title_from False s"

subsection \<open>Numbers\<close>

text \<open>
  A \<open>Decimal\<close> and a \<open>float\<close> are both held as the rational number they denote (finite
  values only).  What distinguishes them is the rounding of each operation: a \<open>Decimal\<close>
  operation rounds its exact result to 28 significant decimal digits (the default context),
  a \<open>float\<close> operation to 53 significant bits, both to nearest with ties to even.
  Exponent limits (overflow, subnormal numbers) are not modelled.
\<close>

type_synonym decimal = rat

definition round_half_even :: "rat \<Rightarrow> int" where
  "round_half_even q =
     (let f = \<lfloor>q\<rfloor>; d = q - of_int f
      in if d < 1 / 2 then f
         else if 1 / 2 < d then f + 1
         else if even f then f else f + 1)"

text \<open>The number of digits of \<open>n\<close> in base \<open>b\<close> (0 for \<open>n = 0\<close>).\<close>

function ndigits :: "nat \<Rightarrow> nat \<Rightarrow> nat" where
  "ndigits b n = (if n = 0 \<or> b < 2 then 0 else Suc (ndigits b (n div b)))"
  by pat_completeness auto
termination
  by (relation "measure snd") auto

declare ndigits.simps [simp del]

text \<open>The largest \<open>e\<close> with \<open>b ^ e \<le> q\<close>, for \<open>q > 0\<close>.\<close>

definition floor_log :: "nat \<Rightarrow> rat \<Rightarrow> int" where
  "floor_log b q =
     (if 1 \<le> q then int (ndigits b (nat \<lfloor>q\<rfloor>)) - 1
      else - int (ndigits b (nat (\<lceil>1 / q\<rceil> - 1))))"

definition rat_power :: "nat \<Rightarrow> int \<Rightarrow> rat" where
  "rat_power b e = (if 0 \<le> e then of_nat b ^ nat e else 1 / of_nat b ^ nat (- e))"

text \<open>Rounding to \<open>p\<close> significant digits in base \<open>b\<close>, to nearest, ties to even.\<close>

definition round_sig :: "nat \<Rightarrow> nat \<Rightarrow> rat \<Rightarrow> rat" where
  "round_sig b p q =
     (if q = 0 then 0
      else let a = \<bar>q\<bar>;
               unit = rat_power b (floor_log b a - int p + 1);
               m = round_half_even (a / unit)
           in sgn q * of_int m * unit)"

definition ctx_round :: "rat \<Rightarrow> decimal" where
  "ctx_round q = round_sig 10 28 q"

definition dec_add :: "decimal \<Rightarrow> decimal \<Rightarrow> decimal" where
  "dec_add a b = ctx_round (a + b)"

definition dec_mul :: "decimal \<Rightarrow> decimal \<Rightarrow> decimal" where
  "dec_mul a b = ctx_round (a * b)"

text \<open>Division of Decimals; the callers guard the divisor.\<close>

definition dec_div :: "decimal \<Rightarrow> decimal \<Rightarrow> decimal" where
  "dec_div a b = ctx_round (a / b)"

text \<open>\<open>float(x)\<close>: the nearest binary64 number.\<close>

definition to_float :: "rat \<Rightarrow> rat" where
  "to_float q = round_sig 2 53 q"

definition float_mul :: "rat \<Rightarrow> rat \<Rightarrow> rat" where
  "float_mul a b = to_float (a * b)"

text \<open>\<open>s.zfill(k)\<close> on a digit string.\<close>

definition zfill :: "nat \<Rightarrow> string \<Rightarrow> string" where
  "zfill k s = replicate (k - length s) CHR ''0'' @ s"

text \<open>
  \<open>f"{x:.kf}"\<close> for \<open>k > 0\<close>, on a Decimal as on a float: the value rounded to \<open>k\<close> decimals,
  ties to even, the sign of a negative value kept.
\<close>

definition fmt_fixed :: "nat \<Rightarrow> rat \<Rightarrow> string" where
  "fmt_fixed k q =
     (let n = nat (round_half_even (\<bar>q\<bar> * 10 ^ k))
      in (if q < 0 then ''-'' else '''') @ str_nat (n div 10 ^ k) @ ''.''
           @ zfill k (str_nat (n mod 10 ^ k)))"

subsection \<open>Exceptions, requests and events\<close>

datatype exn =
    ServiceError string
  | NameError string
  | KeyError string

text \<open>\<open>str(e)\<close>.\<close>

fun str_exn :: "exn \<Rightarrow> string" where
  "str_exn (ServiceError m) = m"
| "str_exn (NameError n) = ''name '' @ quote @ n @ quote @ '' is not defined''"
| "str_exn (KeyError k) = quote @ k @ quote"

text \<open>One entry of a \<open>Filters\<close> argument: its \<open>Name\<close> and its \<open>Values\<close>.\<close>

datatype query_filter = Filter string "string list"

record ec2_instance =
  InstanceId :: string
  InstanceType :: string
  SpotInstanceRequestId :: "string option"

record volume =
  VolumeId :: string
  Size :: nat

text \<open>\<open>BackupRetentionPeriod\<close> is \<open>None\<close> when the record has no such key.\<close>

record db_instance =
  DBInstanceIdentifier :: string
  DBInstanceClass :: string
  BackupRetentionPeriod :: "int option"

text \<open>
  One group of a billing result: \<open>group['Keys'][0]\<close> and the Decimal read from
  \<open>group['Metrics']['BlendedCost']['Amount']\<close>.
\<close>

record cost_group =
  service_key :: string
  blended_amount :: decimal

datatype event =
    GetCostAndUsage int int string
  | DescribeInstances "query_filter list"
  | DescribeDBInstances
  | DescribeVolumes "query_filter list"
  | Publish string string string
  | Print string

text \<open>
  The collaborators.  \<open>get_cost_and_usage\<close> takes the start day, the end day and the value
  of the \<open>Project\<close> tag filter and answers with \<open>ResultsByTime\<close>, each entry being its
  \<open>Groups\<close>; \<open>describe_instances\<close> answers with \<open>Reservations\<close>, each entry being its
  \<open>Instances\<close>; \<open>publish\<close> takes topic, subject and message.  \<open>today\<close> is
  \<open>datetime.now().date()\<close> as a day number and \<open>now_text\<close> is the rendered time stamp.
\<close>

record aws =
  get_cost_and_usage :: "int \<Rightarrow> int \<Rightarrow> string \<Rightarrow> exn + cost_group list list"
  describe_instances :: "query_filter list \<Rightarrow> exn + ec2_instance list list"
  describe_volumes :: "query_filter list \<Rightarrow> exn + volume list"
  describe_db_instances :: "exn + db_instance list"
  publish :: "string \<Rightarrow> string \<Rightarrow> string \<Rightarrow> exn + unit"
  today :: int
  now_text :: string

subsection \<open>The cost mapping\<close>

text \<open>
  \<open>service_costs\<close> is a \<open>dict\<close>; its iteration order (insertion order) decides ties in the
  sort of the report, so it is an association list with unique keys.
\<close>

type_synonym cost_dict = "(string \<times> decimal) list"

definition dict_get :: "cost_dict \<Rightarrow> string \<Rightarrow> decimal \<Rightarrow> decimal" where
  "dict_get d k dflt = (case map_of d k of None \<Rightarrow> dflt | Some v \<Rightarrow> v)"

fun dict_set :: "cost_dict \<Rightarrow> string \<Rightarrow> decimal \<Rightarrow> cost_dict" where
  "dict_set [] k v = [(k, v)]"
| "dict_set ((k', v') # d) k v =
     (if k' = k then (k, v) # d else (k', v') # dict_set d k v)"

text \<open>The body of the aggregation loop, and the loop over all groups of all results.\<close>

definition add_group :: "cost_dict \<times> decimal \<Rightarrow> cost_group \<Rightarrow> cost_dict \<times> decimal" where
  "add_group st g =
     (let service_costs = fst st; total_cost = snd st;
          service = service_key g; cost = blended_amount g
      in (dict_set service_costs service (dec_add (dict_get service_costs service 0) cost),
          dec_add total_cost cost))"

definition aggregate :: "cost_group list list \<Rightarrow> cost_dict \<times> decimal" where
  "aggregate results = foldl add_group ([], 0) (concat results)"

subsection \<open>Recommendations and the four analyzers\<close>

text \<open>A recommendation is a \<open>dict\<close> from field names to texts, in the order of its literal.\<close>

type_synonym recommendation = "(string \<times> string) list"

definition running_filters :: "query_filter list" where
  "running_filters =
     [Filter ''instance-state-name'' [''running''],
      Filter ''tag:Project'' [''${project_name}'']]"

definition ec2_rightsizing_rec :: "ec2_instance \<Rightarrow> recommendation" where
  "ec2_rightsizing_rec inst =
     [(''type'', ''EC2_RIGHTSIZING''),
      (''resource'', InstanceId inst),
      (''current_type'', InstanceType inst),
      (''recommendation'',
       ''Consider downsizing to m5.medium if CPU utilization is consistently low''),
      (''potential_savings'', ''Up to 50% cost reduction'')]"

definition ec2_spot_rec :: "ec2_instance \<Rightarrow> recommendation" where
  "ec2_spot_rec inst =
     [(''type'', ''EC2_SPOT_INSTANCES''),
      (''resource'', InstanceId inst),
      (''recommendation'', ''Consider using Spot instances for non-critical workloads''),
      (''potential_savings'', ''Up to 70% cost reduction'')]"

text \<open>The test of the first check: \<open>instance_type\<close> starts with one of the two class names.\<close>

definition is_large_type :: "string \<Rightarrow> bool" where
  "is_large_type instance_type =
     (startswith instance_type ''m5.large'' \<or> startswith instance_type ''m5.xlarge'')"

text \<open>
  The body of the inner loop of \<open>analyze_ec2_costs\<close>: the list before the instance is
  looked at, and the list after.  The two \<open>if\<close> statements follow each other; neither is
  an \<open>else\<close> of the other.
\<close>

definition ec2_instance_body :: "recommendation list \<Rightarrow> ec2_instance \<Rightarrow> recommendation list" where
  "ec2_instance_body recommendations inst =
     (let instance_type = InstanceType inst;
          recs1 = (if is_large_type instance_type
                   then recommendations @ [ec2_rightsizing_rec inst]
                   else recommendations)
      in if SpotInstanceRequestId inst = None
         then recs1 @ [ec2_spot_rec inst]
         else recs1)"

text \<open>
  Each analyzer returns its recommendations and the events it caused.  None of them raises:
  the inventory calls are inside \<open>try\<close> blocks that catch every exception.  The nested
  \<open>for\<close> loops are folds over the reservations and over the instances of each.
\<close>

definition analyze_ec2_costs :: "aws \<Rightarrow> cost_dict \<Rightarrow> recommendation list \<times> event list" where
  "analyze_ec2_costs w service_costs =
     (let ec2_cost = dict_get service_costs ''Amazon Elastic Compute Cloud - Compute'' 0
      in if ec2_cost > 100
         then (case describe_instances w running_filters of
                 Inl e \<Rightarrow>
                   ([], [DescribeInstances running_filters,
                         Print (''Error analyzing EC2 costs: '' @ str_exn e)])
               | Inr reservations \<Rightarrow>
                   (foldl (foldl ec2_instance_body) [] reservations,
                    [DescribeInstances running_filters]))
         else ([], []))"

definition rds_rightsizing_rec :: "db_instance \<Rightarrow> recommendation" where
  "rds_rightsizing_rec db =
     [(''type'', ''RDS_RIGHTSIZING''),
      (''resource'', DBInstanceIdentifier db),
      (''current_class'', DBInstanceClass db),
      (''recommendation'',
       ''Monitor CPU and memory utilization to determine if downsizing is possible''),
      (''potential_savings'', ''Up to 40% cost reduction'')]"

definition rds_backup_rec :: "db_instance \<Rightarrow> int \<Rightarrow> recommendation" where
  "rds_backup_rec db backup_retention =
     [(''type'', ''RDS_BACKUP_OPTIMIZATION''),
      (''resource'', DBInstanceIdentifier db),
      (''current_retention'', str_int backup_retention @ '' days''),
      (''recommendation'',
       ''Consider reducing backup retention period if not required for compliance''),
      (''potential_savings'', ''Reduce backup storage costs'')]"

text \<open>\<open>db_instance.get('BackupRetentionPeriod', 0)\<close>.\<close>

definition backup_retention_of :: "db_instance \<Rightarrow> int" where
  "backup_retention_of db = (case BackupRetentionPeriod db of None \<Rightarrow> 0 | Some n \<Rightarrow> n)"

text \<open>The body of the loop of \<open>analyze_rds_costs\<close>.\<close>

definition rds_instance_body :: "recommendation list \<Rightarrow> db_instance \<Rightarrow> recommendation list" where
  "rds_instance_body recommendations db =
     (let db_class = DBInstanceClass db;
          recs1 = (if str_in ''large'' db_class \<or> str_in ''xlarge'' db_class
                   then recommendations @ [rds_rightsizing_rec db]
                   else recommendations);
          backup_retention = backup_retention_of db
      in if backup_retention > 7
         then recs1 @ [rds_backup_rec db backup_retention]
         else recs1)"

definition analyze_rds_costs :: "aws \<Rightarrow> cost_dict \<Rightarrow> recommendation list \<times> event list" where
  "analyze_rds_costs w service_costs =
     (let rds_cost = dict_get service_costs ''Amazon Relational Database Service'' 0
      in if rds_cost > 50
         then (case describe_db_instances w of
                 Inl e \<Rightarrow>
                   ([], [DescribeDBInstances,
                         Print (''Error analyzing RDS costs: '' @ str_exn e)])
               | Inr db_instances \<Rightarrow>
                   (foldl rds_instance_body [] db_instances, [DescribeDBInstances]))
         else ([], []))"

definition s3_lifecycle_rec :: recommendation where
  "s3_lifecycle_rec =
     [(''type'', ''S3_LIFECYCLE_OPTIMIZATION''),
      (''recommendation'',
       ''Implement S3 lifecycle policies to transition old objects to cheaper storage classes''),
      (''potential_savings'', ''Up to 60% on storage costs for infrequently accessed data'')]"

definition ebs_optimization_rec :: recommendation where
  "ebs_optimization_rec =
     [(''type'', ''EBS_OPTIMIZATION''),
      (''recommendation'',
       ''Review EBS volumes for unused or oversized volumes, consider gp3 over gp2''),
      (''potential_savings'', ''Up to 20% on EBS costs'')]"

definition analyze_storage_costs :: "cost_dict \<Rightarrow> recommendation list" where
  "analyze_storage_costs service_costs =
     (let s3_cost = dict_get service_costs ''Amazon Simple Storage Service'' 0;
          ebs_cost = dict_get service_costs ''Amazon Elastic Block Store'' 0;
          recs1 = (if s3_cost > 20 then [s3_lifecycle_rec] else [])
      in if ebs_cost > 30 then recs1 @ [ebs_optimization_rec] else recs1)"

definition stopped_filters :: "query_filter list" where
  "stopped_filters =
     [Filter ''instance-state-name'' [''stopped''],
      Filter ''tag:Project'' [''${project_name}'']]"

definition volume_filters :: "query_filter list" where
  "volume_filters =
     [Filter ''status'' [''available''],
      Filter ''tag:Project'' [''${project_name}'']]"

definition unused_instance_rec :: "ec2_instance \<Rightarrow> recommendation" where
  "unused_instance_rec inst =
     [(''type'', ''UNUSED_EC2_INSTANCE''),
      (''resource'', InstanceId inst),
      (''recommendation'',
       ''Consider terminating long-stopped instances if no longer needed''),
      (''potential_savings'', ''Eliminate EBS storage costs'')]"

text \<open>\<open>float(volume['Size']) * 0.10\<close>, both factors and the product being floats.\<close>

definition unattached_volume_rec :: "volume \<Rightarrow> recommendation" where
  "unattached_volume_rec v =
     [(''type'', ''UNATTACHED_EBS_VOLUME''),
      (''resource'', VolumeId v),
      (''size'', str_nat (Size v) @ '' GB''),
      (''recommendation'', ''Delete unattached EBS volumes if no longer needed''),
      (''potential_savings'',
       ''$'' @ fmt_fixed 2 (float_mul (to_float (of_nat (Size v))) (to_float (1 / 10)))
         @ ''/month'')]"

text \<open>The bodies of the two loops of \<open>check_unused_resources\<close>.\<close>

definition stopped_instance_body ::
  "recommendation list \<Rightarrow> ec2_instance \<Rightarrow> recommendation list" where
  "stopped_instance_body recommendations inst = recommendations @ [unused_instance_rec inst]"

definition volume_body :: "recommendation list \<Rightarrow> volume \<Rightarrow> recommendation list" where
  "volume_body recommendations v = recommendations @ [unattached_volume_rec v]"

text \<open>
  One \<open>try\<close> block holds both inventory calls, and the list is filled as the block runs:
  when the second call raises, what the first loop appended is still returned.
\<close>

definition check_unused_resources :: "aws \<Rightarrow> recommendation list \<times> event list" where
  "check_unused_resources w =
     (case describe_instances w stopped_filters of
        Inl e \<Rightarrow>
          ([], [DescribeInstances stopped_filters,
                Print (''Error checking unused resources: '' @ str_exn e)])
      | Inr stopped_instances \<Rightarrow>
          (let recs = foldl (foldl stopped_instance_body) [] stopped_instances
           in case describe_volumes w volume_filters of
                Inl e \<Rightarrow>
                  (recs, [DescribeInstances stopped_filters, DescribeVolumes volume_filters,
                          Print (''Error checking unused resources: '' @ str_exn e)])
              | Inr volumes \<Rightarrow>
                  (foldl volume_body recs volumes,
                   [DescribeInstances stopped_filters, DescribeVolumes volume_filters])))"

subsection \<open>The report\<close>

text \<open>
  A scope maps a name to the text that formatting its value gives.  The report template
  reads the names \<open>project_name\<close> and \<open>environment\<close>; \<open>generate_cost_report\<close> has neither as
  a parameter nor as a local, so they are looked up at module level when the template is
  evaluated, and a name that is not bound there raises \<open>NameError\<close>.
\<close>

type_synonym scope = "string \<rightharpoonup> string"

text \<open>
  The module level binds \<open>json\<close>, \<open>boto3\<close>, \<open>os\<close>, \<open>datetime\<close>, \<open>timedelta\<close>, \<open>Decimal\<close> and
  the seven functions, and nothing else: \<open>project_name\<close> and \<open>environment\<close> are locals of
  \<open>handler\<close> only.  No name that the template reads is bound.
\<close>

definition module_scope :: scope where
  "module_scope = Map.empty"

text \<open>\<open>percentage = (cost / total_cost * 100) if total_cost > 0 else 0\<close>.\<close>

definition percentage :: "decimal \<Rightarrow> decimal \<Rightarrow> rat" where
  "percentage cost total_cost =
     (if total_cost > 0 then dec_mul (dec_div cost total_cost) 100 else 0)"

text \<open>One line of the summary; the cost is printed through \<open>float\<close>, the percentage is not.\<close>

definition summary_line :: "decimal \<Rightarrow> string \<times> decimal \<Rightarrow> string" where
  "summary_line total_cost sc =
     ''  '' @ bullet @ '' '' @ fst sc @ '': $'' @ fmt_fixed 2 (to_float (snd sc))
       @ '' ('' @ fmt_fixed 1 (percentage (snd sc) total_cost) @ ''%)'' @ nl"

text \<open>
  \<open>sorted(service_costs.items(), key=lambda x: x[1], reverse=True)\<close>: a stable sort, by
  cost descending.
\<close>

definition sorted_services :: "cost_dict \<Rightarrow> (string \<times> decimal) list" where
  "sorted_services service_costs = sort_key (\<lambda>x. - snd x) service_costs"

text \<open>One numbered entry; \<open>rec['type']\<close> and \<open>rec['recommendation']\<close> raise on a missing key.\<close>

definition rec_entry :: "nat \<Rightarrow> recommendation \<Rightarrow> exn + string" where
  "rec_entry i r =
     (case map_of r ''type'' of
        None \<Rightarrow> Inl (KeyError ''type'')
      | Some ty \<Rightarrow>
          (case map_of r ''recommendation'' of
             None \<Rightarrow> Inl (KeyError ''recommendation'')
           | Some txt \<Rightarrow>
               Inr (nl @ str_nat i @ ''. '' @ title (replace_underscores ty) @ nl
                    @ (case map_of r ''resource'' of
                         None \<Rightarrow> []
                       | Some res \<Rightarrow> ''   Resource: '' @ res @ nl)
                    @ ''   Recommendation: '' @ txt @ nl
                    @ (case map_of r ''potential_savings'' of
                         None \<Rightarrow> []
                       | Some sav \<Rightarrow> ''   Potential Savings: '' @ sav @ nl))))"

fun rec_entries :: "nat \<Rightarrow> recommendation list \<Rightarrow> exn + string" where
  "rec_entries i [] = Inr []"
| "rec_entries i (r # rs) =
     (case rec_entry i r of
        Inl e \<Rightarrow> Inl e
      | Inr s \<Rightarrow> (case rec_entries (Suc i) rs of Inl e \<Rightarrow> Inl e | Inr t \<Rightarrow> Inr (s @ t)))"

definition generate_cost_report ::
  "scope \<Rightarrow> aws \<Rightarrow> cost_dict \<Rightarrow> decimal \<Rightarrow> recommendation list \<Rightarrow> exn + string" where
  "generate_cost_report sc w service_costs total_cost recommendations =
     (case sc ''project_name'' of
        None \<Rightarrow> Inl (NameError ''project_name'')
      | Some project_name \<Rightarrow>
          (case sc ''environment'' of
             None \<Rightarrow> Inl (NameError ''environment'')
           | Some environment \<Rightarrow>
               (let header =
                      nl @ ''Cost Optimization Report for $'' @ project_name
                        @ '' ($'' @ environment @ '')'' @ nl
                        @ ''Generated: '' @ now_text w @ nl @ nl
                        @ ''COST SUMMARY (Last 30 days):'' @ nl
                        @ ''Total Cost: $'' @ fmt_fixed 2 (to_float total_cost) @ nl @ nl
                        @ ''Top Services by Cost:'' @ nl;
                    summary =
                      concat (map (summary_line total_cost)
                                (take 5 (sorted_services service_costs)));
                    trailer = nl @ ''Next analysis scheduled in 7 days.'' @ nl
                in if recommendations \<noteq> []
                   then (case rec_entries 1 recommendations of
                           Inl e \<Rightarrow> Inl e
                         | Inr entries \<Rightarrow>
                             Inr (header @ summary @ nl @ ''OPTIMIZATION RECOMMENDATIONS (''
                                  @ str_nat (length recommendations) @ '' found):'' @ nl
                                  @ entries @ trailer))
                   else Inr (header @ summary @ nl
                             @ ''No optimization recommendations found at this time.'' @ nl
                             @ trailer))))"

subsection \<open>The notifier\<close>

definition subject_of :: "string \<Rightarrow> string \<Rightarrow> string" where
  "subject_of project_name environment =
     ''Cost Optimization Report - '' @ project_name @ '' ('' @ environment @ '')''"

text \<open>\<open>send_notification\<close> returns nothing and never raises; its effect is its events.\<close>

definition send_notification ::
  "aws \<Rightarrow> string \<Rightarrow> string \<Rightarrow> string \<Rightarrow> string \<Rightarrow> event list" where
  "send_notification w topic_arn report project_name environment =
     (let subject = subject_of project_name environment
      in case publish w topic_arn subject report of
           Inl e \<Rightarrow>
             [Publish topic_arn subject report,
              Print (''Error sending notification: '' @ str_exn e)]
         | Inr u \<Rightarrow>
             [Publish topic_arn subject report,
              Print ''Cost optimization report sent successfully''])"

subsection \<open>The handler\<close>

text \<open>
  The value handed to \<open>json.dumps\<close>; the serialisation itself is not modelled.  A number
  made by \<open>float(...)\<close> is \<open>JFloat\<close>, one made by \<open>len(...)\<close> is \<open>JInt\<close>.
\<close>

datatype json =
    JString string
  | JFloat rat
  | JInt int
  | JObject "(string \<times> json) list"

record response =
  statusCode :: int
  body :: json

text \<open>The \<open>except\<close> branch of the handler: the log line and the 500 response.\<close>

definition error_response :: "exn \<Rightarrow> response" where
  "error_response e =
     \<lparr>statusCode = 500, body = JObject [(''error'', JString (str_exn e))]\<rparr>"

definition error_print :: "exn \<Rightarrow> event" where
  "error_print e = Print (''Error in cost optimization analysis: '' @ str_exn e)"

text \<open>
  The four \<open>recommendations.extend(...)\<close> statements: the list after them, and the events
  of the three analyzers that call a service.
\<close>

definition collect_recommendations ::
  "aws \<Rightarrow> cost_dict \<Rightarrow> recommendation list \<times> event list" where
  "collect_recommendations w service_costs =
     (let recs0 = [];
          ec2 = analyze_ec2_costs w service_costs;
          recs1 = recs0 @ fst ec2;
          rds = analyze_rds_costs w service_costs;
          recs2 = recs1 @ fst rds;
          recs3 = recs2 @ analyze_storage_costs service_costs;
          unused = check_unused_resources w;
          recs4 = recs3 @ fst unused
      in (recs4, snd ec2 @ snd rds @ snd unused))"

text \<open>
  The handler under a given module scope.  The three reads of \<open>os.environ\<close> precede the
  \<open>try\<close> block, so a missing variable leaves the handler as an exception (\<open>Inl\<close>);
  everything raised inside the block becomes the 500 response.
\<close>

definition handler_in ::
  "scope \<Rightarrow> (string \<rightharpoonup> string) \<Rightarrow> aws \<Rightarrow> (exn + response) \<times> event list" where
  "handler_in sc environ w =
     (case environ ''PROJECT_NAME'' of
        None \<Rightarrow> (Inl (KeyError ''PROJECT_NAME''), [])
      | Some project_name \<Rightarrow>
     (case environ ''ENVIRONMENT'' of
        None \<Rightarrow> (Inl (KeyError ''ENVIRONMENT''), [])
      | Some environment \<Rightarrow>
     (case environ ''SNS_TOPIC_ARN'' of
        None \<Rightarrow> (Inl (KeyError ''SNS_TOPIC_ARN''), [])
      | Some sns_topic_arn \<Rightarrow>
     (let end_date = today w;
          start_date = end_date - 30;
          query = GetCostAndUsage start_date end_date project_name
      in case get_cost_and_usage w start_date end_date project_name of
           Inl e \<Rightarrow> (Inr (error_response e), [query, error_print e])
         | Inr results \<Rightarrow>
             (let costs = aggregate results;
                  service_costs = fst costs;
                  total_cost = snd costs;
                  collected = collect_recommendations w service_costs;
                  recommendations = fst collected
              in case generate_cost_report sc w service_costs total_cost recommendations of
                   Inl e \<Rightarrow> (Inr (error_response e), query # snd collected @ [error_print e])
                 | Inr report \<Rightarrow>
                     (Inr \<lparr>statusCode = 200,
                          body = JObject
                            [(''message'', JString ''Cost optimization analysis completed''),
                             (''total_cost'', JFloat (to_float total_cost)),
                             (''recommendations_count'', JInt (int (length recommendations)))]\<rparr>,
                      query # snd collected
                        @ (if recommendations \<noteq> []
                           then send_notification w sns_topic_arn report project_name environment
                           else [])))))))"

text \<open>The handler of the module as it is written.\<close>

definition handler :: "(string \<rightharpoonup> string) \<Rightarrow> aws \<Rightarrow> (exn + response) \<times> event list" where
  "handler environ w = handler_in module_scope environ w"

subsection \<open>Reading the event list\<close>

fun is_publish :: "event \<Rightarrow> bool" where
  "is_publish (Publish topic subject message) = True"
| "is_publish ev = False"

text \<open>The values that a \<open>Filters\<close> argument gives for the tag \<open>Project\<close>.\<close>

fun project_tag_values :: "query_filter list \<Rightarrow> string list" where
  "project_tag_values [] = []"
| "project_tag_values (Filter name vals # fs) =
     (if name = ''tag:Project'' then vals @ project_tag_values fs else project_tag_values fs)"

text \<open>The same for an event: the tag values of a compute inventory call, nothing otherwise.\<close>

fun inventory_tag_values :: "event \<Rightarrow> string list" where
  "inventory_tag_values (DescribeInstances fs) = project_tag_values fs"
| "inventory_tag_values (DescribeVolumes fs) = project_tag_values fs"
| "inventory_tag_values ev = []"

text \<open>The \<open>type\<close> field of a recommendation.\<close>

definition rec_type :: "recommendation \<Rightarrow> string option" where
  "rec_type r = map_of r ''type''"

definition is_backup_rec :: "recommendation \<Rightarrow> bool" where
  "is_backup_rec r = (rec_type r = Some ''RDS_BACKUP_OPTIMIZATION'')"

definition is_rds_rightsizing_rec :: "recommendation \<Rightarrow> bool" where
  "is_rds_rightsizing_rec r = (rec_type r = Some ''RDS_RIGHTSIZING'')"

subsection \<open>Example invocations\<close>

definition env_apex :: "string \<rightharpoonup> string" where
  "env_apex =
     [''PROJECT_NAME'' \<mapsto> ''apex'', ''ENVIRONMENT'' \<mapsto> ''dev'',
      ''SNS_TOPIC_ARN'' \<mapsto> ''arn:aws:sns:us-east-1:1:costs'']"

definition inst_large :: ec2_instance where
  "inst_large =
     \<lparr>InstanceId = ''i-1'', InstanceType = ''m5.large'', SpotInstanceRequestId = None\<rparr>"

definition inst_small_spot :: ec2_instance where
  "inst_small_spot =
     \<lparr>InstanceId = ''i-2'', InstanceType = ''t3.micro'',
      SpotInstanceRequestId = Some ''sir-1''\<rparr>"

definition inst_stopped :: ec2_instance where
  "inst_stopped =
     \<lparr>InstanceId = ''i-3'', InstanceType = ''t3.small'', SpotInstanceRequestId = None\<rparr>"

definition example_inventory :: "query_filter list \<Rightarrow> exn + ec2_instance list list" where
  "example_inventory fs =
     (if fs = running_filters then Inr [[inst_large], [inst_small_spot]]
      else if fs = stopped_filters then Inr [[inst_stopped]]
      else Inr [])"

definition db_week :: db_instance where
  "db_week =
     \<lparr>DBInstanceIdentifier = ''db-7'', DBInstanceClass = ''db.t3.micro'',
      BackupRetentionPeriod = Some 7\<rparr>"

definition db_eight :: db_instance where
  "db_eight =
     \<lparr>DBInstanceIdentifier = ''db-8'', DBInstanceClass = ''db.t3.micro'',
      BackupRetentionPeriod = Some 8\<rparr>"

definition db_bare :: db_instance where
  "db_bare =
     \<lparr>DBInstanceIdentifier = ''db-0'', DBInstanceClass = ''db.m5.large'',
      BackupRetentionPeriod = None\<rparr>"

definition example_costs :: "cost_group list list" where
  "example_costs =
     [[\<lparr>service_key = ''Amazon Elastic Compute Cloud - Compute'', blended_amount = 150\<rparr>,
       \<lparr>service_key = ''Amazon Relational Database Service'', blended_amount = 60\<rparr>,
       \<lparr>service_key = ''Amazon Simple Storage Service'', blended_amount = 10\<rparr>]]"

text \<open>An account where every service answers.\<close>

definition w_example :: aws where
  "w_example =
     \<lparr>get_cost_and_usage = (\<lambda>start_date end_date project. Inr example_costs),
      describe_instances = example_inventory,
      describe_volumes = (\<lambda>fs. Inr [\<lparr>VolumeId = ''vol-1'', Size = 50\<rparr>]),
      describe_db_instances = Inr [db_week, db_eight, db_bare],
      publish = (\<lambda>topic subject message. Inr ()),
      today = 19700,
      now_text = ''2023-12-09 06:00:00''\<rparr>"

definition access_denied :: exn where
  "access_denied = ServiceError ''AccessDenied''"

text \<open>The same account with one service failing.\<close>

definition w_billing_down :: aws where
  "w_billing_down =
     w_example\<lparr>get_cost_and_usage := (\<lambda>start_date end_date project. Inl access_denied)\<rparr>"

definition w_volumes_down :: aws where
  "w_volumes_down = w_example\<lparr>describe_volumes := (\<lambda>fs. Inl access_denied)\<rparr>"

definition w_instances_down :: aws where
  "w_instances_down = w_example\<lparr>describe_instances := (\<lambda>fs. Inl access_denied)\<rparr>"

definition w_databases_down :: aws where
  "w_databases_down = w_example\<lparr>describe_db_instances := Inl access_denied\<rparr>"

text \<open>An account with no cost and no resource at all.\<close>

definition w_empty :: aws where
  "w_empty =
     \<lparr>get_cost_and_usage = (\<lambda>start_date end_date project. Inr []),
      describe_instances = (\<lambda>fs. Inr []),
      describe_volumes = (\<lambda>fs. Inr []),
      describe_db_instances = Inr [],
      publish = (\<lambda>topic subject message. Inr ()),
      today = 19700,
      now_text = ''2023-12-09 06:00:00''\<rparr>"

text \<open>A cost mapping above the compute, database and object-storage thresholds.\<close>

definition busy_costs :: cost_dict where
  "busy_costs =
     [(''Amazon Elastic Compute Cloud - Compute'', 150),
      (''Amazon Relational Database Service'', 60),
      (''Amazon Simple Storage Service'', 25)]"

text \<open>The text of the \<open>NameError\<close> for \<open>project_name\<close>.\<close>

definition name_error_text :: string where
  "name_error_text = ''name '' @ quote @ ''project_name'' @ quote @ '' is not defined''"

text \<open>The cost mapping of the spec's scenario, with its total.\<close>

definition scenario_costs :: cost_dict where
  "scenario_costs = [(''ComputeService'', 150), (''StorageService'', 10)]"

text \<open>A recommendation that the formatter can render: it has the two keys read without a test.\<close>

definition well_formed_rec :: "recommendation \<Rightarrow> bool" where
  "well_formed_rec r = (map_of r ''type'' \<noteq> None \<and> map_of r ''recommendation'' \<noteq> None)"

text \<open>A scope in which the two names of the template are bound, as a module-level
  assignment of them would make it.\<close>

definition scope_apex :: scope where
  "scope_apex = [''project_name'' \<mapsto> ''apex'', ''environment'' \<mapsto> ''dev'']"

definition inst_large_spot :: ec2_instance where
  "inst_large_spot =
     \<lparr>InstanceId = ''i-4'', InstanceType = ''m5.xlarge'',
      SpotInstanceRequestId = Some ''sir-4''\<rparr>"

text \<open>The example account with a bill above the object-storage threshold as well.\<close>

definition busy_groups :: "cost_group list list" where
  "busy_groups =
     [[\<lparr>service_key = ''Amazon Elastic Compute Cloud - Compute'', blended_amount = 150\<rparr>,
       \<lparr>service_key = ''Amazon Relational Database Service'', blended_amount = 60\<rparr>,
       \<lparr>service_key = ''Amazon Simple Storage Service'', blended_amount = 25\<rparr>]]"

definition w_busy :: aws where
  "w_busy = w_example\<lparr>get_cost_and_usage := (\<lambda>start_date end_date project. Inr busy_groups)\<rparr>"

definition vol_fifty :: volume where
  "vol_fifty = \<lparr>VolumeId = ''vol-1'', Size = 50\<rparr>"

section \<open>Properties\<close>

subsection \<open>The top-level failure path\<close>

text \<open>
  Claim C2.  When the three environment variables are set and the billing query raises
  \<open>e\<close>, the handler returns status 500 with the body \<open>{"error": str(e)}\<close>, and its whole
  trace is the billing call followed by the log line: no inventory call is made, no report
  is rendered and nothing is published.
\<close>

theorem billing_failure_aborts:
  assumes "environ ''PROJECT_NAME'' = Some project_name"
    and "environ ''ENVIRONMENT'' = Some environment"
    and "environ ''SNS_TOPIC_ARN'' = Some topic"
    and "get_cost_and_usage w (today w - 30) (today w) project_name = Inl e"
  shows "handler environ w =
           (Inr \<lparr>statusCode = 500, body = JObject [(''error'', JString (str_exn e))]\<rparr>,
            [GetCostAndUsage (today w - 30) (today w) project_name,
             Print (''Error in cost optimization analysis: '' @ str_exn e)])"
  using assms
  by (simp add: handler_def handler_in_def error_response_def error_print_def Let_def)

theorem billing_failure_aborts_witness:
  "env_apex ''PROJECT_NAME'' = Some ''apex''
   \<and> env_apex ''ENVIRONMENT'' = Some ''dev''
   \<and> env_apex ''SNS_TOPIC_ARN'' = Some ''arn:aws:sns:us-east-1:1:costs''
   \<and> get_cost_and_usage w_billing_down (today w_billing_down - 30) (today w_billing_down)
        ''apex'' = Inl access_denied
   \<and> handler env_apex w_billing_down =
        (Inr \<lparr>statusCode = 500, body = JObject [(''error'', JString ''AccessDenied'')]\<rparr>,
         [GetCostAndUsage 19670 19700 ''apex'',
          Print ''Error in cost optimization analysis: AccessDenied''])"
proof -
  have env: "env_apex ''PROJECT_NAME'' = Some ''apex''"
    "env_apex ''ENVIRONMENT'' = Some ''dev''"
    "env_apex ''SNS_TOPIC_ARN'' = Some ''arn:aws:sns:us-east-1:1:costs''"
    by (simp_all add: env_apex_def)
  have down: "get_cost_and_usage w_billing_down (today w_billing_down - 30)
                (today w_billing_down) ''apex'' = Inl access_denied"
    by (simp add: w_billing_down_def)
  have day: "today w_billing_down = 19700"
    by (simp add: w_billing_down_def w_example_def)
  show ?thesis
    using billing_failure_aborts [OF env down] env down
    by (simp add: day access_denied_def)
qed

subsection \<open>Loops as concatenations\<close>

text \<open>
  Every loop body only appends to the list it is given, so each loop adds to its list the
  concatenation of what the body adds for each element, in the order of the elements.
\<close>

lemma ec2_instance_body_append:
  "ec2_instance_body acc inst = acc @ ec2_instance_body [] inst"
  by (simp add: ec2_instance_body_def Let_def)

lemma foldl_ec2_instance_body:
  "foldl ec2_instance_body acc insts = acc @ concat (map (ec2_instance_body []) insts)"
proof (induction insts arbitrary: acc)
  case Nil
  show ?case by simp
next
  case (Cons inst insts)
  show ?case
    using Cons.IH [of "ec2_instance_body acc inst"] ec2_instance_body_append [of acc inst]
    by simp
qed

lemma foldl_reservations_ec2:
  "foldl (foldl ec2_instance_body) acc reservations =
     acc @ concat (map (ec2_instance_body []) (concat reservations))"
proof (induction reservations arbitrary: acc)
  case Nil
  show ?case by simp
next
  case (Cons r rs)
  show ?case
    using Cons.IH [of "foldl ec2_instance_body acc r"]
    by (simp add: foldl_ec2_instance_body)
qed

lemma rds_instance_body_append:
  "rds_instance_body acc db = acc @ rds_instance_body [] db"
  by (simp add: rds_instance_body_def Let_def)

lemma foldl_rds_instance_body:
  "foldl rds_instance_body acc dbs = acc @ concat (map (rds_instance_body []) dbs)"
proof (induction dbs arbitrary: acc)
  case Nil
  show ?case by simp
next
  case (Cons db dbs)
  show ?case
    using Cons.IH [of "rds_instance_body acc db"] rds_instance_body_append [of acc db]
    by simp
qed

lemma foldl_stopped_instance_body:
  "foldl stopped_instance_body acc insts = acc @ map unused_instance_rec insts"
  by (induction insts arbitrary: acc) (simp_all add: stopped_instance_body_def)

lemma foldl_reservations_stopped:
  "foldl (foldl stopped_instance_body) acc reservations =
     acc @ map unused_instance_rec (concat reservations)"
  by (induction reservations arbitrary: acc) (simp_all add: foldl_stopped_instance_body)

lemma foldl_volume_body:
  "foldl volume_body acc vols = acc @ map unattached_volume_rec vols"
  by (induction vols arbitrary: acc) (simp_all add: volume_body_def)

lemma analyze_ec2_costs_below:
  "\<not> 100 < dict_get service_costs ''Amazon Elastic Compute Cloud - Compute'' 0
   \<Longrightarrow> analyze_ec2_costs w service_costs = ([], [])"
  by (simp add: analyze_ec2_costs_def Let_def)

lemma analyze_ec2_costs_ok:
  "100 < dict_get service_costs ''Amazon Elastic Compute Cloud - Compute'' 0
   \<Longrightarrow> describe_instances w running_filters = Inr reservations
   \<Longrightarrow> analyze_ec2_costs w service_costs =
         (concat (map (ec2_instance_body []) (concat reservations)),
          [DescribeInstances running_filters])"
  by (simp add: analyze_ec2_costs_def Let_def foldl_reservations_ec2)

lemma analyze_ec2_costs_raise:
  "100 < dict_get service_costs ''Amazon Elastic Compute Cloud - Compute'' 0
   \<Longrightarrow> describe_instances w running_filters = Inl e
   \<Longrightarrow> analyze_ec2_costs w service_costs =
         ([], [DescribeInstances running_filters,
               Print (''Error analyzing EC2 costs: '' @ str_exn e)])"
  by (simp add: analyze_ec2_costs_def Let_def)

lemma analyze_rds_costs_below:
  "\<not> 50 < dict_get service_costs ''Amazon Relational Database Service'' 0
   \<Longrightarrow> analyze_rds_costs w service_costs = ([], [])"
  by (simp add: analyze_rds_costs_def Let_def)

lemma analyze_rds_costs_ok:
  "50 < dict_get service_costs ''Amazon Relational Database Service'' 0
   \<Longrightarrow> describe_db_instances w = Inr dbs
   \<Longrightarrow> analyze_rds_costs w service_costs =
         (concat (map (rds_instance_body []) dbs), [DescribeDBInstances])"
  by (simp add: analyze_rds_costs_def Let_def foldl_rds_instance_body)

lemma analyze_rds_costs_raise:
  "50 < dict_get service_costs ''Amazon Relational Database Service'' 0
   \<Longrightarrow> describe_db_instances w = Inl e
   \<Longrightarrow> analyze_rds_costs w service_costs =
         ([], [DescribeDBInstances, Print (''Error analyzing RDS costs: '' @ str_exn e)])"
  by (simp add: analyze_rds_costs_def Let_def)

lemma check_unused_resources_ok:
  "describe_instances w stopped_filters = Inr stopped
   \<Longrightarrow> describe_volumes w volume_filters = Inr vols
   \<Longrightarrow> check_unused_resources w =
         (map unused_instance_rec (concat stopped) @ map unattached_volume_rec vols,
          [DescribeInstances stopped_filters, DescribeVolumes volume_filters])"
  by (simp add: check_unused_resources_def Let_def foldl_reservations_stopped
      foldl_volume_body)

lemma check_unused_resources_raise_first:
  "describe_instances w stopped_filters = Inl e
   \<Longrightarrow> check_unused_resources w =
         ([], [DescribeInstances stopped_filters,
               Print (''Error checking unused resources: '' @ str_exn e)])"
  by (simp add: check_unused_resources_def)

lemma check_unused_resources_raise_second:
  "describe_instances w stopped_filters = Inr stopped
   \<Longrightarrow> describe_volumes w volume_filters = Inl e
   \<Longrightarrow> check_unused_resources w =
         (map unused_instance_rec (concat stopped),
          [DescribeInstances stopped_filters, DescribeVolumes volume_filters,
           Print (''Error checking unused resources: '' @ str_exn e)])"
  by (simp add: check_unused_resources_def Let_def foldl_reservations_stopped)

lemma example_filters_distinct:
  "running_filters \<noteq> stopped_filters"
  by (simp add: running_filters_def stopped_filters_def)

lemma example_inventory_running:
  "example_inventory running_filters = Inr [[inst_large], [inst_small_spot]]"
  by (simp add: example_inventory_def)

lemma example_inventory_stopped:
  "example_inventory stopped_filters = Inr [[inst_stopped]]"
  using example_filters_distinct by (simp add: example_inventory_def)

lemma is_large_type_examples:
  "is_large_type ''m5.large''" "is_large_type ''m5.xlarge''" "\<not> is_large_type ''t3.micro''"
  "\<not> is_large_type ''t3.small''"
  by (simp_all add: is_large_type_def startswith_def)

subsection \<open>Facts about the database loop\<close>

lemma not_backup_rightsizing: "\<not> is_backup_rec (rds_rightsizing_rec db)"
  by (simp add: is_backup_rec_def rec_type_def rds_rightsizing_rec_def)

lemma is_backup_backup: "is_backup_rec (rds_backup_rec db n)"
  by (simp add: is_backup_rec_def rec_type_def rds_backup_rec_def)

lemma backup_recs_of_body:
  "filter is_backup_rec (rds_instance_body [] db) =
     (if 7 < backup_retention_of db then [rds_backup_rec db (backup_retention_of db)] else [])"
  by (simp add: rds_instance_body_def Let_def not_backup_rightsizing is_backup_backup)

lemma str_nat_digit: "n < 10 \<Longrightarrow> str_nat n = [digit_char n]"
  by (simp add: str_nat.simps)

lemma str_int_8: "str_int 8 = ''8''"
  by (simp add: str_int_def str_nat_digit digit_char_def)

subsection \<open>The list and the trace of the four analyzers\<close>

lemma collect_recommendations_fst:
  "fst (collect_recommendations w service_costs) =
     fst (analyze_ec2_costs w service_costs) @ fst (analyze_rds_costs w service_costs)
       @ analyze_storage_costs service_costs @ fst (check_unused_resources w)"
  by (simp add: collect_recommendations_def Let_def)

lemma collect_recommendations_snd:
  "snd (collect_recommendations w service_costs) =
     snd (analyze_ec2_costs w service_costs) @ snd (analyze_rds_costs w service_costs)
       @ snd (check_unused_resources w)"
  by (simp add: collect_recommendations_def Let_def)

subsection \<open>Failure isolation of the analyzers\<close>

text \<open>After the environment is read and the billing query has answered, the handler is the
  analyzers followed by the formatter, whose outcome alone decides the response.\<close>

lemma handler_in_after_billing:
  assumes "environ ''PROJECT_NAME'' = Some project_name"
    and "environ ''ENVIRONMENT'' = Some environment"
    and "environ ''SNS_TOPIC_ARN'' = Some topic"
    and "get_cost_and_usage w (today w - 30) (today w) project_name = Inr results"
  shows "handler_in sc environ w =
     (case generate_cost_report sc w (fst (aggregate results)) (snd (aggregate results))
             (fst (collect_recommendations w (fst (aggregate results)))) of
        Inl e \<Rightarrow>
          (Inr (error_response e),
           GetCostAndUsage (today w - 30) (today w) project_name
             # snd (collect_recommendations w (fst (aggregate results))) @ [error_print e])
      | Inr report \<Rightarrow>
          (Inr \<lparr>statusCode = 200,
               body = JObject
                 [(''message'', JString ''Cost optimization analysis completed''),
                  (''total_cost'', JFloat (to_float (snd (aggregate results)))),
                  (''recommendations_count'',
                   JInt (int (length (fst (collect_recommendations w
                                             (fst (aggregate results)))))))]\<rparr>,
           GetCostAndUsage (today w - 30) (today w) project_name
             # snd (collect_recommendations w (fst (aggregate results)))
             @ (if fst (collect_recommendations w (fst (aggregate results))) \<noteq> []
                then send_notification w topic report project_name environment
                else [])))"
  using assms by (simp add: handler_in_def Let_def)

text \<open>
  Claim C3, as stated, fails for the unused-resource analyzer: with one stopped instance
  in the inventory and the volume query raising, the analyzer returns the
  recommendation for the stopped instance, not an empty list.
\<close>

theorem unused_analyzer_keeps_partial_list:
  "describe_instances w_volumes_down stopped_filters = Inr [[inst_stopped]]
   \<and> describe_volumes w_volumes_down volume_filters = Inl access_denied
   \<and> fst (check_unused_resources w_volumes_down) = [unused_instance_rec inst_stopped]
   \<and> fst (check_unused_resources w_volumes_down) \<noteq> []"
proof -
  have a: "describe_instances w_volumes_down stopped_filters = Inr [[inst_stopped]]"
    by (simp add: w_volumes_down_def w_example_def example_inventory_stopped)
  have b: "describe_volumes w_volumes_down volume_filters = Inl access_denied"
    by (simp add: w_volumes_down_def)
  show ?thesis
    using a b by (simp add: check_unused_resources_raise_second [OF a b])
qed

text \<open>
  Claim C3, amended.  The compute and the database analyzer, when their inventory query
  raises, log the exception and return an empty list.  The unused-resource analyzer logs a
  failure of either of its two queries; it returns an empty list when the stopped-instance
  query raises, and the stopped-instance recommendations collected so far when the volume
  query raises.  In every case the run goes on: once the billing query has answered, the
  handler's trace starts with the billing call followed by the events of the compute, the
  database and the unused-resource analyzer, and the response is decided by the formatter,
  not by what an inventory query raised.
\<close>

theorem analyzer_failures_are_local:
  "(100 < dict_get costs1 ''Amazon Elastic Compute Cloud - Compute'' 0
      \<and> describe_instances w1 running_filters = Inl e1
    \<longrightarrow> analyze_ec2_costs w1 costs1 =
          ([], [DescribeInstances running_filters,
                Print (''Error analyzing EC2 costs: '' @ str_exn e1)]))
   \<and> (50 < dict_get costs2 ''Amazon Relational Database Service'' 0
        \<and> describe_db_instances w2 = Inl e2
      \<longrightarrow> analyze_rds_costs w2 costs2 =
            ([], [DescribeDBInstances, Print (''Error analyzing RDS costs: '' @ str_exn e2)]))
   \<and> (describe_instances w3 stopped_filters = Inl e3
      \<longrightarrow> check_unused_resources w3 =
            ([], [DescribeInstances stopped_filters,
                  Print (''Error checking unused resources: '' @ str_exn e3)]))
   \<and> (describe_instances w4 stopped_filters = Inr stopped
        \<and> describe_volumes w4 volume_filters = Inl e4
      \<longrightarrow> check_unused_resources w4 =
            (map unused_instance_rec (concat stopped),
             [DescribeInstances stopped_filters, DescribeVolumes volume_filters,
              Print (''Error checking unused resources: '' @ str_exn e4)]))
   \<and> (environ ''PROJECT_NAME'' = Some project_name
        \<and> environ ''ENVIRONMENT'' = Some environment
        \<and> environ ''SNS_TOPIC_ARN'' = Some topic
        \<and> get_cost_and_usage w (today w - 30) (today w) project_name = Inr results
      \<longrightarrow> prefix
            (GetCostAndUsage (today w - 30) (today w) project_name
               # snd (analyze_ec2_costs w (fst (aggregate results)))
               @ snd (analyze_rds_costs w (fst (aggregate results)))
               @ snd (check_unused_resources w))
            (snd (handler_in sc environ w))
          \<and> fst (handler_in sc environ w) =
              (case generate_cost_report sc w (fst (aggregate results))
                      (snd (aggregate results))
                      (fst (collect_recommendations w (fst (aggregate results)))) of
                 Inl e \<Rightarrow> Inr (error_response e)
               | Inr report \<Rightarrow>
                   Inr \<lparr>statusCode = 200,
                        body = JObject
                          [(''message'', JString ''Cost optimization analysis completed''),
                           (''total_cost'', JFloat (to_float (snd (aggregate results)))),
                           (''recommendations_count'',
                            JInt (int (length (fst (collect_recommendations w
                                                      (fst (aggregate results)))))))]\<rparr>))"
proof (intro conjI impI)
  assume "100 < dict_get costs1 ''Amazon Elastic Compute Cloud - Compute'' 0
            \<and> describe_instances w1 running_filters = Inl e1"
  then show "analyze_ec2_costs w1 costs1 =
          ([], [DescribeInstances running_filters,
                Print (''Error analyzing EC2 costs: '' @ str_exn e1)])"
    by (simp add: analyze_ec2_costs_raise)
next
  assume "50 < dict_get costs2 ''Amazon Relational Database Service'' 0
            \<and> describe_db_instances w2 = Inl e2"
  then show "analyze_rds_costs w2 costs2 =
            ([], [DescribeDBInstances, Print (''Error analyzing RDS costs: '' @ str_exn e2)])"
    by (simp add: analyze_rds_costs_raise)
next
  assume "describe_instances w3 stopped_filters = Inl e3"
  then show "check_unused_resources w3 =
            ([], [DescribeInstances stopped_filters,
                  Print (''Error checking unused resources: '' @ str_exn e3)])"
    by (rule check_unused_resources_raise_first)
next
  assume "describe_instances w4 stopped_filters = Inr stopped
            \<and> describe_volumes w4 volume_filters = Inl e4"
  then show "check_unused_resources w4 =
            (map unused_instance_rec (concat stopped),
             [DescribeInstances stopped_filters, DescribeVolumes volume_filters,
              Print (''Error checking unused resources: '' @ str_exn e4)])"
    by (simp add: check_unused_resources_raise_second)
next
  assume h: "environ ''PROJECT_NAME'' = Some project_name
        \<and> environ ''ENVIRONMENT'' = Some environment
        \<and> environ ''SNS_TOPIC_ARN'' = Some topic
        \<and> get_cost_and_usage w (today w - 30) (today w) project_name = Inr results"
  note unfold = handler_in_after_billing [of environ project_name environment topic w results sc]
  show "prefix
            (GetCostAndUsage (today w - 30) (today w) project_name
               # snd (analyze_ec2_costs w (fst (aggregate results)))
               @ snd (analyze_rds_costs w (fst (aggregate results)))
               @ snd (check_unused_resources w))
            (snd (handler_in sc environ w))"
    using h unfold
    by (simp add: collect_recommendations_snd prefix_def split: sum.splits)
  show "fst (handler_in sc environ w) =
              (case generate_cost_report sc w (fst (aggregate results))
                      (snd (aggregate results))
                      (fst (collect_recommendations w (fst (aggregate results)))) of
                 Inl e \<Rightarrow> Inr (error_response e)
               | Inr report \<Rightarrow>
                   Inr \<lparr>statusCode = 200,
                        body = JObject
                          [(''message'', JString ''Cost optimization analysis completed''),
                           (''total_cost'', JFloat (to_float (snd (aggregate results)))),
                           (''recommendations_count'',
                            JInt (int (length (fst (collect_recommendations w
                                                      (fst (aggregate results)))))))]\<rparr>)"
    using h unfold
    by (simp split: sum.splits)
qed
lemma aggregate_example_costs:
  "aggregate example_costs =
     ([(''Amazon Elastic Compute Cloud - Compute'', 150),
       (''Amazon Relational Database Service'', 60),
       (''Amazon Simple Storage Service'', 10)], 220)"
  by code_simp

lemma generate_cost_report_unbound:
  "generate_cost_report module_scope w service_costs total_cost recommendations =
     Inl (NameError ''project_name'')"
  by (simp add: generate_cost_report_def module_scope_def)

lemma env_apex_reads:
  "env_apex ''PROJECT_NAME'' = Some ''apex''"
  "env_apex ''ENVIRONMENT'' = Some ''dev''"
  "env_apex ''SNS_TOPIC_ARN'' = Some ''arn:aws:sns:us-east-1:1:costs''"
  by (simp_all add: env_apex_def)

theorem analyzer_failures_are_local_witness:
  "analyze_ec2_costs w_instances_down [(''Amazon Elastic Compute Cloud - Compute'', 150)] =
     ([], [DescribeInstances running_filters, Print ''Error analyzing EC2 costs: AccessDenied''])
   \<and> analyze_rds_costs w_databases_down [(''Amazon Relational Database Service'', 60)] =
       ([], [DescribeDBInstances, Print ''Error analyzing RDS costs: AccessDenied''])
   \<and> check_unused_resources w_instances_down =
       ([], [DescribeInstances stopped_filters,
             Print ''Error checking unused resources: AccessDenied''])
   \<and> check_unused_resources w_volumes_down =
       ([unused_instance_rec inst_stopped],
        [DescribeInstances stopped_filters, DescribeVolumes volume_filters,
         Print ''Error checking unused resources: AccessDenied''])
   \<and> prefix
       [GetCostAndUsage 19670 19700 ''apex'',
        DescribeInstances running_filters,
        Print ''Error analyzing EC2 costs: AccessDenied'',
        DescribeDBInstances,
        DescribeInstances stopped_filters,
        Print ''Error checking unused resources: AccessDenied'']
       (snd (handler_in module_scope env_apex w_instances_down))
   \<and> fst (handler_in module_scope env_apex w_instances_down) =
       Inr (error_response (NameError ''project_name''))"
proof -
  have c1: "100 < dict_get [(''Amazon Elastic Compute Cloud - Compute'', 150)]
              ''Amazon Elastic Compute Cloud - Compute'' 0"
    by (simp add: dict_get_def)
  have c2: "50 < dict_get [(''Amazon Relational Database Service'', 60)]
              ''Amazon Relational Database Service'' 0"
    by (simp add: dict_get_def)
  have q1: "describe_instances w_instances_down running_filters = Inl access_denied"
    by (simp add: w_instances_down_def)
  have q2: "describe_db_instances w_databases_down = Inl access_denied"
    by (simp add: w_databases_down_def)
  have q3: "describe_instances w_instances_down stopped_filters = Inl access_denied"
    by (simp add: w_instances_down_def)
  have q4: "describe_instances w_volumes_down stopped_filters = Inr [[inst_stopped]]"
    "describe_volumes w_volumes_down volume_filters = Inl access_denied"
    by (simp_all add: w_volumes_down_def w_example_def example_inventory_stopped)
  have day: "today w_instances_down = 19700"
    by (simp add: w_instances_down_def w_example_def)
  have q5: "get_cost_and_usage w_instances_down (today w_instances_down - 30)
              (today w_instances_down) ''apex'' = Inr example_costs"
    by (simp add: w_instances_down_def w_example_def)
  have dbs: "describe_db_instances w_instances_down = Inr [db_week, db_eight, db_bare]"
    by (simp add: w_instances_down_def w_example_def)
  have costs: "100 < dict_get (fst (aggregate example_costs))
                 ''Amazon Elastic Compute Cloud - Compute'' 0"
    "50 < dict_get (fst (aggregate example_costs)) ''Amazon Relational Database Service'' 0"
    by (simp_all add: aggregate_example_costs dict_get_def)
  note t = analyzer_failures_are_local
    [where ?costs1.0 = "[(''Amazon Elastic Compute Cloud - Compute'', 150)]"
       and ?w1.0 = w_instances_down and ?e1.0 = access_denied
       and ?costs2.0 = "[(''Amazon Relational Database Service'', 60)]"
       and ?w2.0 = w_databases_down and ?e2.0 = access_denied
       and ?w3.0 = w_instances_down and ?e3.0 = access_denied
       and ?w4.0 = w_volumes_down and stopped = "[[inst_stopped]]" and ?e4.0 = access_denied
       and environ = env_apex and project_name = "''apex''" and environment = "''dev''"
       and topic = "''arn:aws:sns:us-east-1:1:costs''" and w = w_instances_down
       and results = example_costs and sc = module_scope]
  from t c1 q1 have 1: "analyze_ec2_costs w_instances_down
      [(''Amazon Elastic Compute Cloud - Compute'', 150)] =
      ([], [DescribeInstances running_filters,
            Print (''Error analyzing EC2 costs: '' @ str_exn access_denied)])"
    by blast
  from t c2 q2 have 2: "analyze_rds_costs w_databases_down
      [(''Amazon Relational Database Service'', 60)] =
      ([], [DescribeDBInstances, Print (''Error analyzing RDS costs: '' @ str_exn access_denied)])"
    by blast
  from t q3 have 3: "check_unused_resources w_instances_down =
      ([], [DescribeInstances stopped_filters,
            Print (''Error checking unused resources: '' @ str_exn access_denied)])"
    by blast
  from t q4 have 4: "check_unused_resources w_volumes_down =
      (map unused_instance_rec (concat [[inst_stopped]]),
       [DescribeInstances stopped_filters, DescribeVolumes volume_filters,
        Print (''Error checking unused resources: '' @ str_exn access_denied)])"
    by blast
  from t env_apex_reads q5 have 5: "prefix
      (GetCostAndUsage (today w_instances_down - 30) (today w_instances_down) ''apex''
         # snd (analyze_ec2_costs w_instances_down (fst (aggregate example_costs)))
         @ snd (analyze_rds_costs w_instances_down (fst (aggregate example_costs)))
         @ snd (check_unused_resources w_instances_down))
      (snd (handler_in module_scope env_apex w_instances_down))"
    by blast
  from t env_apex_reads q5 have 6: "fst (handler_in module_scope env_apex w_instances_down) =
      (case generate_cost_report module_scope w_instances_down (fst (aggregate example_costs))
              (snd (aggregate example_costs))
              (fst (collect_recommendations w_instances_down (fst (aggregate example_costs)))) of
         Inl e \<Rightarrow> Inr (error_response e)
       | Inr report \<Rightarrow>
           Inr \<lparr>statusCode = 200,
                body = JObject
                  [(''message'', JString ''Cost optimization analysis completed''),
                   (''total_cost'', JFloat (to_float (snd (aggregate example_costs)))),
                   (''recommendations_count'',
                    JInt (int (length (fst (collect_recommendations w_instances_down
                                              (fst (aggregate example_costs)))))))]\<rparr>)"
    by blast
  have ev1: "snd (analyze_ec2_costs w_instances_down (fst (aggregate example_costs))) =
      [DescribeInstances running_filters,
       Print (''Error analyzing EC2 costs: '' @ str_exn access_denied)]"
    using costs q1 by (simp add: analyze_ec2_costs_raise)
  have ev2: "snd (analyze_rds_costs w_instances_down (fst (aggregate example_costs))) =
      [DescribeDBInstances]"
    using costs dbs by (simp add: analyze_rds_costs_ok)
  from 5 have p5: "prefix
       [GetCostAndUsage 19670 19700 ''apex'',
        DescribeInstances running_filters,
        Print ''Error analyzing EC2 costs: AccessDenied'',
        DescribeDBInstances,
        DescribeInstances stopped_filters,
        Print ''Error checking unused resources: AccessDenied'']
       (snd (handler_in module_scope env_apex w_instances_down))"
    by (simp add: ev1 ev2 3 day access_denied_def)
  from 6 have p6: "fst (handler_in module_scope env_apex w_instances_down) =
       Inr (error_response (NameError ''project_name''))"
    by (simp add: generate_cost_report_unbound)
  from 1 2 3 4 p5 p6 show ?thesis
    by (simp add: access_denied_def)
qed

subsection \<open>The report template and the module scope\<close>

lemma str_exn_name_error: "str_exn (NameError ''project_name'') = name_error_text"
  by (simp add: name_error_text_def)

lemma no_publish_ec2: "filter is_publish (snd (analyze_ec2_costs w service_costs)) = []"
  by (simp add: analyze_ec2_costs_def Let_def split: sum.splits)

lemma no_publish_rds: "filter is_publish (snd (analyze_rds_costs w service_costs)) = []"
  by (simp add: analyze_rds_costs_def Let_def split: sum.splits)

lemma no_publish_unused: "filter is_publish (snd (check_unused_resources w)) = []"
  by (simp add: check_unused_resources_def Let_def split: sum.splits)

lemma no_publish_collect:
  "filter is_publish (snd (collect_recommendations w service_costs)) = []"
  by (simp add: collect_recommendations_snd no_publish_ec2 no_publish_rds no_publish_unused)

lemma handler_after_billing:
  assumes "environ ''PROJECT_NAME'' = Some project_name"
    and "environ ''ENVIRONMENT'' = Some environment"
    and "environ ''SNS_TOPIC_ARN'' = Some topic"
    and "get_cost_and_usage w (today w - 30) (today w) project_name = Inr results"
  shows "handler environ w =
     (Inr (error_response (NameError ''project_name'')),
      GetCostAndUsage (today w - 30) (today w) project_name
        # snd (collect_recommendations w (fst (aggregate results)))
        @ [error_print (NameError ''project_name'')])"
  using handler_in_after_billing [OF assms, of module_scope]
  by (simp add: handler_def generate_cost_report_unbound)

lemma aggregate_nothing: "aggregate [] = ([], 0)"
  by (simp add: aggregate_def)

lemma collect_nothing:
  "collect_recommendations w_empty [] =
     ([], [DescribeInstances stopped_filters, DescribeVolumes volume_filters])"
proof -
  have "check_unused_resources w_empty =
          ([], [DescribeInstances stopped_filters, DescribeVolumes volume_filters])"
    using check_unused_resources_ok [of w_empty "[]" "[]"] by (simp add: w_empty_def)
  then show ?thesis
    by (simp add: collect_recommendations_def Let_def analyze_ec2_costs_def
        analyze_rds_costs_def analyze_storage_costs_def dict_get_def)
qed

text \<open>
  Claim C1 asks for status 200 whenever the billing query succeeds.  The module does
  otherwise: \<open>generate_cost_report\<close> reads \<open>project_name\<close>, which is bound in no scope it
  can see, so the formatter raises \<open>NameError\<close> on every call and the handler's \<open>except\<close>
  branch turns it into the 500 response.  Whenever the environment is set and the billing
  query answers, the handler returns status 500 with the \<open>NameError\<close> text as the error,
  after the analyzers ran.
\<close>

theorem handler_fails_in_formatter:
  assumes "environ ''PROJECT_NAME'' = Some project_name"
    and "environ ''ENVIRONMENT'' = Some environment"
    and "environ ''SNS_TOPIC_ARN'' = Some topic"
    and "get_cost_and_usage w (today w - 30) (today w) project_name = Inr results"
  shows "handler environ w =
     (Inr \<lparr>statusCode = 500, body = JObject [(''error'', JString name_error_text)]\<rparr>,
      GetCostAndUsage (today w - 30) (today w) project_name
        # snd (collect_recommendations w (fst (aggregate results)))
        @ [Print (''Error in cost optimization analysis: '' @ name_error_text)])"
  using handler_after_billing [OF assms]
  by (simp add: error_response_def error_print_def name_error_text_def)

theorem handler_fails_in_formatter_witness:
  "env_apex ''PROJECT_NAME'' = Some ''apex''
   \<and> get_cost_and_usage w_empty (today w_empty - 30) (today w_empty) ''apex'' = Inr []
   \<and> handler env_apex w_empty =
       (Inr \<lparr>statusCode = 500, body = JObject [(''error'', JString name_error_text)]\<rparr>,
        [GetCostAndUsage 19670 19700 ''apex'',
         DescribeInstances stopped_filters, DescribeVolumes volume_filters,
         Print (''Error in cost optimization analysis: '' @ name_error_text)])"
proof -
  have billing: "get_cost_and_usage w_empty (today w_empty - 30) (today w_empty) ''apex''
                   = Inr []"
    by (simp add: w_empty_def)
  have day: "today w_empty = 19700"
    by (simp add: w_empty_def)
  show ?thesis
    using handler_fails_in_formatter [OF env_apex_reads billing] env_apex_reads billing
    by (simp add: aggregate_nothing collect_nothing day)
qed

text \<open>
  Claim C6 asks that the notifier is invoked exactly when the recommendation list is not
  empty.  In the module as written it is never invoked: no run of the handler contains a
  \<open>Publish\<close> event, because the formatter raises before the call is reached.  The
  example account has a stopped instance, so its list is not empty, and still nothing is
  published and the answer is the 500 response.
\<close>

theorem notifier_never_invoked:
  "filter is_publish (snd (handler environ w)) = []
   \<and> fst (collect_recommendations w_example (fst (aggregate example_costs))) \<noteq> []
   \<and> filter is_publish (snd (handler env_apex w_example)) = []
   \<and> fst (handler env_apex w_example) = Inr (error_response (NameError ''project_name''))"
proof -
  have never: "filter is_publish (snd (handler environ w)) = []" for environ w
    by (simp add: handler_def handler_in_def Let_def generate_cost_report_unbound
        no_publish_collect error_print_def split: option.splits sum.splits)
  have "fst (check_unused_resources w_example) \<noteq> []"
    using check_unused_resources_ok
      [of w_example "[[inst_stopped]]" "[\<lparr>VolumeId = ''vol-1'', Size = 50\<rparr>]"]
    by (simp add: w_example_def example_inventory_stopped)
  then have some: "fst (collect_recommendations w_example (fst (aggregate example_costs)))
                     \<noteq> []"
    by (simp add: collect_recommendations_fst)
  have billing: "get_cost_and_usage w_example (today w_example - 30) (today w_example)
                   ''apex'' = Inr example_costs"
    by (simp add: w_example_def)
  have "fst (handler env_apex w_example) = Inr (error_response (NameError ''project_name''))"
    using handler_after_billing [OF env_apex_reads billing] by simp
  with never some show ?thesis
    by simp
qed

text \<open>
  Claim C8 is about the percentages printed in the report's summary.  The expression is
  as the claim says: for the costs 150 and 10 with total 160 it prints \<open>93.8\<close>, and for a
  total of 0 it prints \<open>0.0\<close> without dividing.  But no summary is ever printed by the
  module as written: whatever its arguments, \<open>generate_cost_report\<close> raises \<open>NameError\<close>
  while evaluating the header of the template, before the summary loop.
\<close>

theorem report_is_never_rendered:
  "generate_cost_report module_scope w service_costs total_cost recommendations =
     Inl (NameError ''project_name'')
   \<and> generate_cost_report module_scope w_example scenario_costs 160 [] =
       Inl (NameError ''project_name'')
   \<and> fmt_fixed 1 (percentage 150 160) = ''93.8''
   \<and> summary_line 160 (''ComputeService'', 150) =
       ''  '' @ bullet @ '' ComputeService: $150.00 (93.8%)'' @ nl
   \<and> percentage cost 0 = 0
   \<and> fmt_fixed 1 (percentage 150 0) = ''0.0''"
proof -
  have a: "fmt_fixed 1 (percentage 150 160) = ''93.8''"
    by code_simp
  have f: "to_float 150 = 150"
    by code_simp
  have g: "fmt_fixed 2 150 = ''150.00''"
    by (simp add: fmt_fixed_def round_half_even_def Let_def str_nat.simps zfill_def
        digit_char_def)
  have b: "summary_line 160 (''ComputeService'', 150) =
             ''  '' @ bullet @ '' ComputeService: $150.00 (93.8%)'' @ nl"
    using a by (simp add: summary_line_def f g)
  have c: "fmt_fixed 1 (percentage 150 0) = ''0.0''"
    by code_simp
  show ?thesis
    using a b c by (simp add: generate_cost_report_unbound percentage_def)
qed

text \<open>
  Claim C9 asks that the compute inventory queries filter by the configured project.
  They do not: the three \<open>Filters\<close> arguments carry the literal text \<open>${project_name}\<close> as
  the tag value, whatever \<open>PROJECT_NAME\<close> is; only the billing query uses the configured
  value.  With \<open>PROJECT_NAME = apex\<close> every inventory call of the run asks for the tag
  value \<open>${project_name}\<close>.
\<close>

theorem inventory_filters_use_placeholder:
  "project_tag_values running_filters = [''${project_name}'']
   \<and> project_tag_values stopped_filters = [''${project_name}'']
   \<and> project_tag_values volume_filters = [''${project_name}'']
   \<and> env_apex ''PROJECT_NAME'' = Some ''apex''
   \<and> snd (handler env_apex w_example) =
       [GetCostAndUsage 19670 19700 ''apex'',
        DescribeInstances running_filters,
        DescribeDBInstances,
        DescribeInstances stopped_filters,
        DescribeVolumes volume_filters,
        Print (''Error in cost optimization analysis: '' @ name_error_text)]
   \<and> concat (map inventory_tag_values (snd (handler env_apex w_example))) =
       [''${project_name}'', ''${project_name}'', ''${project_name}'']
   \<and> ''${project_name}'' \<noteq> ''apex''"
proof -
  have billing: "get_cost_and_usage w_example (today w_example - 30) (today w_example)
                   ''apex'' = Inr example_costs"
    by (simp add: w_example_def)
  have day: "today w_example = 19700"
    by (simp add: w_example_def)
  have costs: "100 < dict_get (fst (aggregate example_costs))
                 ''Amazon Elastic Compute Cloud - Compute'' 0"
    "50 < dict_get (fst (aggregate example_costs)) ''Amazon Relational Database Service'' 0"
    by (simp_all add: aggregate_example_costs dict_get_def)
  have ec2: "snd (analyze_ec2_costs w_example (fst (aggregate example_costs))) =
               [DescribeInstances running_filters]"
    using costs analyze_ec2_costs_ok [of "fst (aggregate example_costs)" w_example
        "[[inst_large], [inst_small_spot]]"]
    by (simp add: w_example_def example_inventory_running)
  have rds: "snd (analyze_rds_costs w_example (fst (aggregate example_costs))) =
               [DescribeDBInstances]"
    using costs analyze_rds_costs_ok [of "fst (aggregate example_costs)" w_example
        "[db_week, db_eight, db_bare]"]
    by (simp add: w_example_def)
  have unused: "snd (check_unused_resources w_example) =
                  [DescribeInstances stopped_filters, DescribeVolumes volume_filters]"
    using check_unused_resources_ok
      [of w_example "[[inst_stopped]]" "[\<lparr>VolumeId = ''vol-1'', Size = 50\<rparr>]"]
    by (simp add: w_example_def example_inventory_stopped)
  have trace: "snd (handler env_apex w_example) =
       [GetCostAndUsage 19670 19700 ''apex'',
        DescribeInstances running_filters,
        DescribeDBInstances,
        DescribeInstances stopped_filters,
        DescribeVolumes volume_filters,
        Print (''Error in cost optimization analysis: '' @ name_error_text)]"
    using handler_after_billing [OF env_apex_reads billing]
    by (simp add: collect_recommendations_snd ec2 rds unused day error_print_def
        name_error_text_def)
  have tags: "project_tag_values running_filters = [''${project_name}'']"
    "project_tag_values stopped_filters = [''${project_name}'']"
    "project_tag_values volume_filters = [''${project_name}'']"
    by (simp_all add: running_filters_def stopped_filters_def volume_filters_def)
  show ?thesis
    unfolding trace using tags env_apex_reads by simp
qed

subsection \<open>The handler once the names of the template are bound\<close>

text \<open>
  The remaining lemmas look at \<open>handler_in\<close> under a scope that binds \<open>project_name\<close> and
  \<open>environment\<close>.  They show what stands between the module and the 200 response: with
  the names bound, every recommendation that the analyzers build can be rendered, the
  handler answers 200 with the length of the list, and the notifier is called exactly when
  the list is not empty, with the derived subject, and whether or not the publish call
  raises.
\<close>

lemma rec_entry_ok:
  "well_formed_rec r \<Longrightarrow> \<exists>s. rec_entry i r = Inr s"
  by (auto simp: well_formed_rec_def rec_entry_def)

lemma rec_entries_ok:
  "list_all well_formed_rec rs \<Longrightarrow> \<exists>s. rec_entries i rs = Inr s"
proof (induction rs arbitrary: i)
  case Nil
  show ?case by simp
next
  case (Cons r rs)
  from Cons.prems obtain s where s: "rec_entry i r = Inr s"
    using rec_entry_ok [of r i] by auto
  from Cons.prems Cons.IH [of "Suc i"] obtain t where t: "rec_entries (Suc i) rs = Inr t"
    by auto
  show ?case
    by (simp add: s t)
qed

lemma well_formed_literals:
  "well_formed_rec (ec2_rightsizing_rec inst)"
  "well_formed_rec (ec2_spot_rec inst)"
  "well_formed_rec (rds_rightsizing_rec db)"
  "well_formed_rec (rds_backup_rec db n)"
  "well_formed_rec s3_lifecycle_rec"
  "well_formed_rec ebs_optimization_rec"
  "well_formed_rec (unused_instance_rec inst)"
  "well_formed_rec (unattached_volume_rec v)"
  by (simp_all add: well_formed_rec_def ec2_rightsizing_rec_def ec2_spot_rec_def
      rds_rightsizing_rec_def rds_backup_rec_def s3_lifecycle_rec_def
      ebs_optimization_rec_def unused_instance_rec_def unattached_volume_rec_def)

lemma well_formed_ec2_body: "list_all well_formed_rec (ec2_instance_body [] inst)"
  by (simp add: ec2_instance_body_def Let_def well_formed_literals)

lemma well_formed_rds_body: "list_all well_formed_rec (rds_instance_body [] db)"
  by (simp add: rds_instance_body_def Let_def well_formed_literals)

lemma well_formed_ec2: "list_all well_formed_rec (fst (analyze_ec2_costs w service_costs))"
  by (simp add: analyze_ec2_costs_def Let_def foldl_reservations_ec2 list_all_iff
      well_formed_ec2_body [unfolded list_all_iff] split: sum.splits)

lemma well_formed_rds: "list_all well_formed_rec (fst (analyze_rds_costs w service_costs))"
  by (simp add: analyze_rds_costs_def Let_def foldl_rds_instance_body list_all_iff
      well_formed_rds_body [unfolded list_all_iff] split: sum.splits)

lemma well_formed_storage: "list_all well_formed_rec (analyze_storage_costs service_costs)"
  by (simp add: analyze_storage_costs_def Let_def well_formed_literals)

lemma well_formed_unused: "list_all well_formed_rec (fst (check_unused_resources w))"
  by (auto simp: check_unused_resources_def Let_def foldl_reservations_stopped
      foldl_volume_body list_all_iff well_formed_literals split: sum.splits)

lemma well_formed_collect:
  "list_all well_formed_rec (fst (collect_recommendations w service_costs))"
  by (simp add: collect_recommendations_fst well_formed_ec2 well_formed_rds
      well_formed_storage well_formed_unused)

lemma generate_cost_report_bound:
  assumes "sc ''project_name'' = Some p" and "sc ''environment'' = Some e"
    and "list_all well_formed_rec recommendations"
  shows "\<exists>report. generate_cost_report sc w service_costs total_cost recommendations
           = Inr report"
proof -
  from assms(3) obtain entries where "rec_entries 1 recommendations = Inr entries"
    using rec_entries_ok [of recommendations 1] by auto
  then show ?thesis
    using assms(1,2) by (simp add: generate_cost_report_def Let_def)
qed

lemma send_notification_publishes_once:
  "filter is_publish (send_notification w topic report project_name environment) =
     [Publish topic (subject_of project_name environment) report]"
  by (simp add: send_notification_def Let_def split: sum.splits)

lemma handler_in_bound_scope:
  assumes "environ ''PROJECT_NAME'' = Some project_name"
    and "environ ''ENVIRONMENT'' = Some environment"
    and "environ ''SNS_TOPIC_ARN'' = Some topic"
    and "get_cost_and_usage w (today w - 30) (today w) project_name = Inr results"
    and "sc ''project_name'' = Some p" and "sc ''environment'' = Some e"
  shows "\<exists>report.
     generate_cost_report sc w (fst (aggregate results)) (snd (aggregate results))
       (fst (collect_recommendations w (fst (aggregate results)))) = Inr report
     \<and> fst (handler_in sc environ w) =
         Inr \<lparr>statusCode = 200,
              body = JObject
                [(''message'', JString ''Cost optimization analysis completed''),
                 (''total_cost'', JFloat (to_float (snd (aggregate results)))),
                 (''recommendations_count'',
                  JInt (int (length (fst (collect_recommendations w
                                            (fst (aggregate results)))))))]\<rparr>
     \<and> filter is_publish (snd (handler_in sc environ w)) =
         (if fst (collect_recommendations w (fst (aggregate results))) \<noteq> []
          then [Publish topic (subject_of project_name environment) report]
          else [])"
proof -
  obtain report where report:
    "generate_cost_report sc w (fst (aggregate results)) (snd (aggregate results))
       (fst (collect_recommendations w (fst (aggregate results)))) = Inr report"
    using generate_cost_report_bound [OF assms(5,6) well_formed_collect] by blast
  show ?thesis
    using handler_in_after_billing [OF assms(1-4), of sc] report
    by (simp add: no_publish_collect send_notification_publishes_once)
qed

lemma handler_in_scope_apex_example:
  "fst (handler_in scope_apex env_apex w_empty) =
     Inr \<lparr>statusCode = 200,
          body = JObject
            [(''message'', JString ''Cost optimization analysis completed''),
             (''total_cost'', JFloat 0),
             (''recommendations_count'', JInt 0)]\<rparr>
   \<and> filter is_publish (snd (handler_in scope_apex env_apex w_empty)) = []"
proof -
  have billing: "get_cost_and_usage w_empty (today w_empty - 30) (today w_empty) ''apex''
                   = Inr []"
    by (simp add: w_empty_def)
  have sc: "scope_apex ''project_name'' = Some ''apex''"
    "scope_apex ''environment'' = Some ''dev''"
    by (simp_all add: scope_apex_def)
  have zero: "to_float 0 = 0"
    by (simp add: to_float_def round_sig_def)
  show ?thesis
    using handler_in_bound_scope [OF env_apex_reads billing sc]
    by (auto simp: aggregate_nothing collect_nothing zero)
qed

subsection \<open>The compute analyzer: the two checks\<close>

text \<open>
  Claim C4.  The compute analyzer queries the inventory and checks instances only when
  the compute cost is strictly above 100; at 100 or below it returns nothing and calls
  nothing.  When it runs, its list is, for each running instance in turn, the rightsizing
  recommendation if the instance type starts with \<open>m5.large\<close> or \<open>m5.xlarge\<close>, followed by
  the spot recommendation if the instance has no spot request.  The two checks are
  independent: a large instance without spot request gives both records, a large one with
  a spot request the rightsizing record alone, a non-large one without spot request the
  spot record alone, and a non-large one with a spot request nothing.  The two records are
  the dictionaries of the source, with the instance's id as \<open>resource\<close>.
\<close>

theorem compute_analyzer_checks:
  "(\<not> 100 < dict_get costs_low ''Amazon Elastic Compute Cloud - Compute'' 0
      \<longrightarrow> analyze_ec2_costs w costs_low = ([], []))
   \<and> (100 < dict_get costs_high ''Amazon Elastic Compute Cloud - Compute'' 0
        \<and> describe_instances w running_filters = Inr reservations
      \<longrightarrow> analyze_ec2_costs w costs_high =
            (concat (map (ec2_instance_body []) (concat reservations)),
             [DescribeInstances running_filters]))
   \<and> (is_large_type (InstanceType a) \<and> SpotInstanceRequestId a = None
      \<longrightarrow> ec2_instance_body [] a = [ec2_rightsizing_rec a, ec2_spot_rec a])
   \<and> (\<not> is_large_type (InstanceType b) \<and> SpotInstanceRequestId b = Some request
      \<longrightarrow> ec2_instance_body [] b = [])
   \<and> length (ec2_instance_body [] c) =
        (if is_large_type (InstanceType c) then 1 else 0)
        + (if SpotInstanceRequestId c = None then 1 else 0)
   \<and> (is_large_type (InstanceType d) \<and> SpotInstanceRequestId d = Some request_d
      \<longrightarrow> ec2_instance_body [] d = [ec2_rightsizing_rec d])
   \<and> (\<not> is_large_type (InstanceType f) \<and> SpotInstanceRequestId f = None
      \<longrightarrow> ec2_instance_body [] f = [ec2_spot_rec f])
   \<and> ec2_instance_body recs c =
        recs @ (if is_large_type (InstanceType c) then [ec2_rightsizing_rec c] else [])
             @ (if SpotInstanceRequestId c = None then [ec2_spot_rec c] else [])
   \<and> (100 < dict_get costs_high ''Amazon Elastic Compute Cloud - Compute'' 0
        \<and> describe_instances w running_filters = Inr reservations
      \<longrightarrow> fst (analyze_ec2_costs w costs_high) =
            concat (map (\<lambda>inst.
                      (if is_large_type (InstanceType inst) then [ec2_rightsizing_rec inst]
                       else [])
                      @ (if SpotInstanceRequestId inst = None then [ec2_spot_rec inst]
                         else []))
                    (concat reservations)))
   \<and> is_large_type instance_type =
        (prefix ''m5.large'' instance_type \<or> prefix ''m5.xlarge'' instance_type)
   \<and> ec2_rightsizing_rec c =
        [(''type'', ''EC2_RIGHTSIZING''),
         (''resource'', InstanceId c),
         (''current_type'', InstanceType c),
         (''recommendation'',
          ''Consider downsizing to m5.medium if CPU utilization is consistently low''),
         (''potential_savings'', ''Up to 50% cost reduction'')]
   \<and> ec2_spot_rec c =
        [(''type'', ''EC2_SPOT_INSTANCES''),
         (''resource'', InstanceId c),
         (''recommendation'', ''Consider using Spot instances for non-critical workloads''),
         (''potential_savings'', ''Up to 70% cost reduction'')]"
proof -
  have body: "ec2_instance_body acc inst =
        acc @ (if is_large_type (InstanceType inst) then [ec2_rightsizing_rec inst] else [])
            @ (if SpotInstanceRequestId inst = None then [ec2_spot_rec inst] else [])"
    for acc inst
    by (simp add: ec2_instance_body_def Let_def)
  have body0: "ec2_instance_body [] =
        (\<lambda>inst. (if is_large_type (InstanceType inst) then [ec2_rightsizing_rec inst] else [])
                 @ (if SpotInstanceRequestId inst = None then [ec2_spot_rec inst] else []))"
    by (rule ext) (simp add: body)
  have c1: "\<not> 100 < dict_get costs_low ''Amazon Elastic Compute Cloud - Compute'' 0
      \<longrightarrow> analyze_ec2_costs w costs_low = ([], [])"
    by (simp add: analyze_ec2_costs_below)
  have c2: "100 < dict_get costs_high ''Amazon Elastic Compute Cloud - Compute'' 0
        \<and> describe_instances w running_filters = Inr reservations
      \<longrightarrow> analyze_ec2_costs w costs_high =
            (concat (map (ec2_instance_body []) (concat reservations)),
             [DescribeInstances running_filters])"
    by (simp add: analyze_ec2_costs_ok)
  have c3: "is_large_type (InstanceType a) \<and> SpotInstanceRequestId a = None
      \<longrightarrow> ec2_instance_body [] a = [ec2_rightsizing_rec a, ec2_spot_rec a]"
    by (simp add: body)
  have c4: "\<not> is_large_type (InstanceType b) \<and> SpotInstanceRequestId b = Some request
      \<longrightarrow> ec2_instance_body [] b = []"
    by (simp add: body)
  have c5: "length (ec2_instance_body [] c) =
        (if is_large_type (InstanceType c) then 1 else 0)
        + (if SpotInstanceRequestId c = None then 1 else 0)"
    by (simp add: body)
  have c6: "is_large_type (InstanceType d) \<and> SpotInstanceRequestId d = Some request_d
      \<longrightarrow> ec2_instance_body [] d = [ec2_rightsizing_rec d]"
    by (simp add: body)
  have c7: "\<not> is_large_type (InstanceType f) \<and> SpotInstanceRequestId f = None
      \<longrightarrow> ec2_instance_body [] f = [ec2_spot_rec f]"
    by (simp add: body)
  have c9: "100 < dict_get costs_high ''Amazon Elastic Compute Cloud - Compute'' 0
        \<and> describe_instances w running_filters = Inr reservations
      \<longrightarrow> fst (analyze_ec2_costs w costs_high) =
            concat (map (\<lambda>inst.
                      (if is_large_type (InstanceType inst) then [ec2_rightsizing_rec inst]
                       else [])
                      @ (if SpotInstanceRequestId inst = None then [ec2_spot_rec inst]
                         else []))
                    (concat reservations))"
    using body0 by (simp add: analyze_ec2_costs_ok)
  have c10: "is_large_type instance_type =
        (prefix ''m5.large'' instance_type \<or> prefix ''m5.xlarge'' instance_type)"
    by (simp add: is_large_type_def startswith_def)
  have c11: "ec2_rightsizing_rec c =
        [(''type'', ''EC2_RIGHTSIZING''),
         (''resource'', InstanceId c),
         (''current_type'', InstanceType c),
         (''recommendation'',
          ''Consider downsizing to m5.medium if CPU utilization is consistently low''),
         (''potential_savings'', ''Up to 50% cost reduction'')]"
    by (simp add: ec2_rightsizing_rec_def)
  have c12: "ec2_spot_rec c =
        [(''type'', ''EC2_SPOT_INSTANCES''),
         (''resource'', InstanceId c),
         (''recommendation'', ''Consider using Spot instances for non-critical workloads''),
         (''potential_savings'', ''Up to 70% cost reduction'')]"
    by (simp add: ec2_spot_rec_def)
  from c1 c2 c3 c4 c5 c6 c7 body [of recs c] c9 c10 c11 c12 show ?thesis
    by blast
qed

theorem compute_analyzer_checks_witness:
  "analyze_ec2_costs w_example
     [(''Amazon Elastic Compute Cloud - Compute'', 100)] = ([], [])
   \<and> analyze_ec2_costs w_example
       [(''Amazon Elastic Compute Cloud - Compute'', 150)] =
         ([ec2_rightsizing_rec inst_large, ec2_spot_rec inst_large],
          [DescribeInstances running_filters])
   \<and> ec2_instance_body [] inst_large = [ec2_rightsizing_rec inst_large, ec2_spot_rec inst_large]
   \<and> ec2_instance_body [] inst_small_spot = []
   \<and> length (ec2_instance_body [] inst_stopped) = 1
   \<and> ec2_instance_body [] inst_large_spot = [ec2_rightsizing_rec inst_large_spot]
   \<and> ec2_instance_body [] inst_stopped = [ec2_spot_rec inst_stopped]
   \<and> ec2_spot_rec inst_stopped =
       [(''type'', ''EC2_SPOT_INSTANCES''),
        (''resource'', ''i-3''),
        (''recommendation'', ''Consider using Spot instances for non-critical workloads''),
        (''potential_savings'', ''Up to 70% cost reduction'')]
   \<and> ec2_rightsizing_rec inst_large_spot =
       [(''type'', ''EC2_RIGHTSIZING''),
        (''resource'', ''i-4''),
        (''current_type'', ''m5.xlarge''),
        (''recommendation'',
         ''Consider downsizing to m5.medium if CPU utilization is consistently low''),
        (''potential_savings'', ''Up to 50% cost reduction'')]"
proof -
  have low: "\<not> 100 < dict_get [(''Amazon Elastic Compute Cloud - Compute'', 100)]
               ''Amazon Elastic Compute Cloud - Compute'' 0"
    by (simp add: dict_get_def)
  have high: "100 < dict_get [(''Amazon Elastic Compute Cloud - Compute'', 150)]
               ''Amazon Elastic Compute Cloud - Compute'' 0"
    by (simp add: dict_get_def)
  have query: "describe_instances w_example running_filters
                 = Inr [[inst_large], [inst_small_spot]]"
    by (simp add: w_example_def example_inventory_running)
  have a: "is_large_type (InstanceType inst_large) \<and> SpotInstanceRequestId inst_large = None"
    by (simp add: inst_large_def is_large_type_examples)
  have b: "\<not> is_large_type (InstanceType inst_small_spot)
             \<and> SpotInstanceRequestId inst_small_spot = Some ''sir-1''"
    by (simp add: inst_small_spot_def is_large_type_examples)
  have d: "is_large_type (InstanceType inst_large_spot)
             \<and> SpotInstanceRequestId inst_large_spot = Some ''sir-4''"
    by (simp add: inst_large_spot_def is_large_type_examples)
  have f: "\<not> is_large_type (InstanceType inst_stopped)
             \<and> SpotInstanceRequestId inst_stopped = None"
    by (simp add: inst_stopped_def is_large_type_examples)
  note t = compute_analyzer_checks
      [where costs_low = "[(''Amazon Elastic Compute Cloud - Compute'', 100)]"
         and w = w_example
         and costs_high = "[(''Amazon Elastic Compute Cloud - Compute'', 150)]"
         and reservations = "[[inst_large], [inst_small_spot]]"
         and a = inst_large and b = inst_small_spot and request = "''sir-1''"
         and d = inst_large_spot and request_d = "''sir-4''" and f = inst_stopped]
  from t low have 1: "analyze_ec2_costs w_example
     [(''Amazon Elastic Compute Cloud - Compute'', 100)] = ([], [])"
    by blast
  from t high query have "analyze_ec2_costs w_example
       [(''Amazon Elastic Compute Cloud - Compute'', 150)] =
         (concat (map (ec2_instance_body []) (concat [[inst_large], [inst_small_spot]])),
          [DescribeInstances running_filters])"
    by blast
  moreover from t a have 3: "ec2_instance_body [] inst_large =
      [ec2_rightsizing_rec inst_large, ec2_spot_rec inst_large]"
    by blast
  moreover from t b have 4: "ec2_instance_body [] inst_small_spot = []"
    by blast
  ultimately have 2: "analyze_ec2_costs w_example
       [(''Amazon Elastic Compute Cloud - Compute'', 150)] =
         ([ec2_rightsizing_rec inst_large, ec2_spot_rec inst_large],
          [DescribeInstances running_filters])"
    by simp
  from t d have 6: "ec2_instance_body [] inst_large_spot = [ec2_rightsizing_rec inst_large_spot]"
    by blast
  from t f have 7: "ec2_instance_body [] inst_stopped = [ec2_spot_rec inst_stopped]"
    by blast
  then have 5: "length (ec2_instance_body [] inst_stopped) = 1"
    by simp
  have 8: "ec2_spot_rec inst_stopped =
       [(''type'', ''EC2_SPOT_INSTANCES''),
        (''resource'', ''i-3''),
        (''recommendation'', ''Consider using Spot instances for non-critical workloads''),
        (''potential_savings'', ''Up to 70% cost reduction'')]"
    by (simp add: ec2_spot_rec_def inst_stopped_def)
  have 9: "ec2_rightsizing_rec inst_large_spot =
       [(''type'', ''EC2_RIGHTSIZING''),
        (''resource'', ''i-4''),
        (''current_type'', ''m5.xlarge''),
        (''recommendation'',
         ''Consider downsizing to m5.medium if CPU utilization is consistently low''),
        (''potential_savings'', ''Up to 50% cost reduction'')]"
    by (simp add: ec2_rightsizing_rec_def inst_large_spot_def)
  from 1 2 3 4 5 6 7 8 9 show ?thesis
    by blast
qed

subsection \<open>The database analyzer: backup retention\<close>

lemma title_backup:
  "title (replace_underscores ''RDS_BACKUP_OPTIMIZATION'') = ''Rds Backup Optimization''"
  by code_simp

lemma rec_entry_backup:
  "rec_entry i (rds_backup_rec db n) =
     Inr (nl @ str_nat i @ ''. Rds Backup Optimization'' @ nl
          @ ''   Resource: '' @ DBInstanceIdentifier db @ nl
          @ ''   Recommendation: Consider reducing backup retention period if not required for compliance''
          @ nl
          @ ''   Potential Savings: Reduce backup storage costs'' @ nl)"
  by (simp add: rec_entry_def rds_backup_rec_def title_backup)

lemma message_lacks_8_days:
  "\<not> str_in ''8 days''
       ''Consider reducing backup retention period if not required for compliance''"
  by simp

lemma savings_lacks_8_days: "\<not> str_in ''8 days'' ''Reduce backup storage costs''"
  by simp

lemma entry_lacks_8_days:
  "\<not> str_in ''8 days''
       (nl @ ''1. Rds Backup Optimization'' @ nl
        @ ''   Resource: db-8'' @ nl
        @ ''   Recommendation: Consider reducing backup retention period if not required for compliance''
        @ nl
        @ ''   Potential Savings: Reduce backup storage costs'' @ nl)"
  by (simp add: nl_def)

text \<open>
  Claim C5, as stated, fails in its last part: for a database instance with retention 8
  the analyzer emits one backup-retention recommendation, but neither its recommendation
  message, nor its potential-savings text, nor the report entry rendered from it contains
  \<open>8 days\<close>.
\<close>

theorem backup_text_lacks_retention:
  "BackupRetentionPeriod db_eight = Some 8
   \<and> filter is_backup_rec (rds_instance_body [] db_eight) = [rds_backup_rec db_eight 8]
   \<and> map_of (rds_backup_rec db_eight 8) ''recommendation'' =
       Some ''Consider reducing backup retention period if not required for compliance''
   \<and> \<not> str_in ''8 days''
           ''Consider reducing backup retention period if not required for compliance''
   \<and> map_of (rds_backup_rec db_eight 8) ''potential_savings'' =
       Some ''Reduce backup storage costs''
   \<and> \<not> str_in ''8 days'' ''Reduce backup storage costs''
   \<and> rec_entry 1 (rds_backup_rec db_eight 8) =
       Inr (nl @ ''1. Rds Backup Optimization'' @ nl
            @ ''   Resource: db-8'' @ nl
            @ ''   Recommendation: Consider reducing backup retention period if not required for compliance''
            @ nl
            @ ''   Potential Savings: Reduce backup storage costs'' @ nl)
   \<and> \<not> str_in ''8 days''
           (nl @ ''1. Rds Backup Optimization'' @ nl
            @ ''   Resource: db-8'' @ nl
            @ ''   Recommendation: Consider reducing backup retention period if not required for compliance''
            @ nl
            @ ''   Potential Savings: Reduce backup storage costs'' @ nl)"
proof -
  have r: "BackupRetentionPeriod db_eight = Some 8" "backup_retention_of db_eight = 8"
    by (simp_all add: db_eight_def backup_retention_of_def)
  have one: "filter is_backup_rec (rds_instance_body [] db_eight) = [rds_backup_rec db_eight 8]"
    by (simp add: backup_recs_of_body r)
  have msg: "map_of (rds_backup_rec db_eight 8) ''recommendation'' =
       Some ''Consider reducing backup retention period if not required for compliance''"
    "map_of (rds_backup_rec db_eight 8) ''potential_savings'' =
       Some ''Reduce backup storage costs''"
    by (simp_all add: rds_backup_rec_def)
  have entry: "rec_entry 1 (rds_backup_rec db_eight 8) =
       Inr (nl @ ''1. Rds Backup Optimization'' @ nl
            @ ''   Resource: db-8'' @ nl
            @ ''   Recommendation: Consider reducing backup retention period if not required for compliance''
            @ nl
            @ ''   Potential Savings: Reduce backup storage costs'' @ nl)"
    by (simp add: rec_entry_backup str_nat_digit digit_char_def db_eight_def)
  from r(1) one msg entry message_lacks_8_days savings_lacks_8_days entry_lacks_8_days
  show ?thesis
    by blast
qed

text \<open>
  Claim C5, amended.  When the database analyzer runs (cost above 50, inventory
  answered), its backup-retention recommendations are one per database instance whose
  retention is above 7, in inventory order: an instance with retention exactly 7 gives
  none, and one with retention 8 gives exactly one.  That recommendation carries the
  current retention in its field \<open>current_retention\<close>, which is the text \<open>8 days\<close>; its
  recommendation message and potential-savings text are fixed and do not contain the
  retention, and the report entry rendered from it shows the type, the resource, the
  message and the savings only.
\<close>

theorem backup_retention_threshold:
  "(50 < dict_get service_costs ''Amazon Relational Database Service'' 0
      \<and> describe_db_instances w = Inr dbs
    \<longrightarrow> filter is_backup_rec (fst (analyze_rds_costs w service_costs)) =
          concat (map (\<lambda>db. if 7 < backup_retention_of db
                             then [rds_backup_rec db (backup_retention_of db)] else []) dbs))
   \<and> (BackupRetentionPeriod db7 = Some 7
      \<longrightarrow> filter is_backup_rec (rds_instance_body [] db7) = [])
   \<and> (BackupRetentionPeriod db8 = Some 8
      \<longrightarrow> filter is_backup_rec (rds_instance_body [] db8) = [rds_backup_rec db8 8]
          \<and> map_of (rds_backup_rec db8 8) ''current_retention'' = Some ''8 days''
          \<and> str_in ''8 days'' (the (map_of (rds_backup_rec db8 8) ''current_retention'')))
   \<and> rds_backup_rec db n =
        [(''type'', ''RDS_BACKUP_OPTIMIZATION''),
         (''resource'', DBInstanceIdentifier db),
         (''current_retention'', str_int n @ '' days''),
         (''recommendation'',
          ''Consider reducing backup retention period if not required for compliance''),
         (''potential_savings'', ''Reduce backup storage costs'')]
   \<and> rec_entry i (rds_backup_rec db n) =
        Inr (nl @ str_nat i @ ''. Rds Backup Optimization'' @ nl
             @ ''   Resource: '' @ DBInstanceIdentifier db @ nl
             @ ''   Recommendation: Consider reducing backup retention period if not required for compliance''
             @ nl
             @ ''   Potential Savings: Reduce backup storage costs'' @ nl)
   \<and> \<not> str_in ''8 days''
           ''Consider reducing backup retention period if not required for compliance''
   \<and> \<not> str_in ''8 days'' ''Reduce backup storage costs''"
proof -
  have c1: "50 < dict_get service_costs ''Amazon Relational Database Service'' 0
      \<and> describe_db_instances w = Inr dbs
    \<longrightarrow> filter is_backup_rec (fst (analyze_rds_costs w service_costs)) =
          concat (map (\<lambda>db. if 7 < backup_retention_of db
                             then [rds_backup_rec db (backup_retention_of db)] else []) dbs)"
  proof
    assume h: "50 < dict_get service_costs ''Amazon Relational Database Service'' 0
      \<and> describe_db_instances w = Inr dbs"
    have "filter is_backup_rec (concat (map (rds_instance_body []) dbs)) =
          concat (map (\<lambda>db. if 7 < backup_retention_of db
                             then [rds_backup_rec db (backup_retention_of db)] else []) dbs)"
      by (induction dbs) (simp_all add: backup_recs_of_body)
    with h show "filter is_backup_rec (fst (analyze_rds_costs w service_costs)) =
          concat (map (\<lambda>db. if 7 < backup_retention_of db
                             then [rds_backup_rec db (backup_retention_of db)] else []) dbs)"
      by (simp add: analyze_rds_costs_ok)
  qed
  have c2: "BackupRetentionPeriod db7 = Some 7
      \<longrightarrow> filter is_backup_rec (rds_instance_body [] db7) = []"
    by (simp add: backup_recs_of_body backup_retention_of_def)
  have field: "map_of (rds_backup_rec db8 8) ''current_retention'' = Some ''8 days''"
    by (simp add: rds_backup_rec_def str_int_8)
  have c3: "BackupRetentionPeriod db8 = Some 8
      \<longrightarrow> filter is_backup_rec (rds_instance_body [] db8) = [rds_backup_rec db8 8]
          \<and> map_of (rds_backup_rec db8 8) ''current_retention'' = Some ''8 days''
          \<and> str_in ''8 days'' (the (map_of (rds_backup_rec db8 8) ''current_retention''))"
    by (simp add: backup_recs_of_body backup_retention_of_def field)
  have c4: "rds_backup_rec db n =
        [(''type'', ''RDS_BACKUP_OPTIMIZATION''),
         (''resource'', DBInstanceIdentifier db),
         (''current_retention'', str_int n @ '' days''),
         (''recommendation'',
          ''Consider reducing backup retention period if not required for compliance''),
         (''potential_savings'', ''Reduce backup storage costs'')]"
    by (simp add: rds_backup_rec_def)
  from c1 c2 c3 c4 rec_entry_backup [of i db n] message_lacks_8_days savings_lacks_8_days
  show ?thesis
    by blast
qed

theorem backup_retention_threshold_witness:
  "filter is_backup_rec
     (fst (analyze_rds_costs w_example [(''Amazon Relational Database Service'', 60)])) =
     [rds_backup_rec db_eight 8]
   \<and> filter is_backup_rec (rds_instance_body [] db_week) = []
   \<and> filter is_backup_rec (rds_instance_body [] db_eight) = [rds_backup_rec db_eight 8]
   \<and> map_of (rds_backup_rec db_eight 8) ''current_retention'' = Some ''8 days''
   \<and> rds_backup_rec db_eight 8 =
        [(''type'', ''RDS_BACKUP_OPTIMIZATION''),
         (''resource'', ''db-8''),
         (''current_retention'', ''8 days''),
         (''recommendation'',
          ''Consider reducing backup retention period if not required for compliance''),
         (''potential_savings'', ''Reduce backup storage costs'')]"
proof -
  have cost: "50 < dict_get [(''Amazon Relational Database Service'', 60)]
                ''Amazon Relational Database Service'' 0"
    by (simp add: dict_get_def)
  have query: "describe_db_instances w_example = Inr [db_week, db_eight, db_bare]"
    by (simp add: w_example_def)
  have r: "BackupRetentionPeriod db_week = Some 7" "BackupRetentionPeriod db_eight = Some 8"
    by (simp_all add: db_week_def db_eight_def)
  have v: "backup_retention_of db_week = 7" "backup_retention_of db_eight = 8"
    "backup_retention_of db_bare = 0"
    by (simp_all add: db_week_def db_eight_def db_bare_def backup_retention_of_def)
  note t = backup_retention_threshold
      [where service_costs = "[(''Amazon Relational Database Service'', 60)]"
         and w = w_example and dbs = "[db_week, db_eight, db_bare]"
         and ?db7.0 = db_week and ?db8.0 = db_eight and db = db_eight and n = 8]
  from t cost query have "filter is_backup_rec
     (fst (analyze_rds_costs w_example [(''Amazon Relational Database Service'', 60)])) =
       concat (map (\<lambda>db. if 7 < backup_retention_of db
                          then [rds_backup_rec db (backup_retention_of db)] else [])
                 [db_week, db_eight, db_bare])"
    by blast
  then have 1: "filter is_backup_rec
     (fst (analyze_rds_costs w_example [(''Amazon Relational Database Service'', 60)])) =
     [rds_backup_rec db_eight 8]"
    by (simp add: v)
  from t r(1) have 2: "filter is_backup_rec (rds_instance_body [] db_week) = []"
    by blast
  from t r(2) have 3: "filter is_backup_rec (rds_instance_body [] db_eight) =
      [rds_backup_rec db_eight 8]"
    by blast
  from t r(2) have 4: "map_of (rds_backup_rec db_eight 8) ''current_retention'' = Some ''8 days''"
    by blast
  from t have "rds_backup_rec db_eight 8 =
        [(''type'', ''RDS_BACKUP_OPTIMIZATION''),
         (''resource'', DBInstanceIdentifier db_eight),
         (''current_retention'', str_int 8 @ '' days''),
         (''recommendation'',
          ''Consider reducing backup retention period if not required for compliance''),
         (''potential_savings'', ''Reduce backup storage costs'')]"
    by blast
  then have 5: "rds_backup_rec db_eight 8 =
        [(''type'', ''RDS_BACKUP_OPTIMIZATION''),
         (''resource'', ''db-8''),
         (''current_retention'', ''8 days''),
         (''recommendation'',
          ''Consider reducing backup retention period if not required for compliance''),
         (''potential_savings'', ''Reduce backup storage costs'')]"
    by (simp add: str_int_8 db_eight_def)
  from 1 2 3 4 5 show ?thesis
    by blast
qed

subsection \<open>The database analyzer: a record without retention\<close>

lemma rds_instance_body_eq:
  "rds_instance_body acc db =
     acc @ (if str_in ''large'' (DBInstanceClass db) \<or> str_in ''xlarge'' (DBInstanceClass db)
            then [rds_rightsizing_rec db] else [])
         @ (if 7 < backup_retention_of db then [rds_backup_rec db (backup_retention_of db)]
            else [])"
  by (simp add: rds_instance_body_def Let_def)

lemma rds_instance_body_retention_zero:
  "BackupRetentionPeriod db = None
   \<Longrightarrow> rds_instance_body [] (db\<lparr>BackupRetentionPeriod := Some 0\<rparr>) = rds_instance_body [] db"
  by (simp add: rds_instance_body_eq backup_retention_of_def rds_rightsizing_rec_def)

text \<open>
  Claim C10.  A database record without the \<open>BackupRetentionPeriod\<close> key is read as
  retention 0.  The analyzer that finds such a record in its inventory returns, at the
  record's place in the list, the rightsizing recommendation alone when the class name
  contains \<open>large\<close> and nothing otherwise, never a backup-retention recommendation; its
  whole result is the one it gives for the same inventory with retention 0 written into
  the record, and it ends without the error log line.
\<close>

theorem missing_retention_is_zero:
  "(BackupRetentionPeriod db = None
      \<longrightarrow> backup_retention_of db = 0
          \<and> rds_instance_body [] db =
              rds_instance_body [] (db\<lparr>BackupRetentionPeriod := Some 0\<rparr>)
          \<and> filter is_backup_rec (rds_instance_body [] db) = []
          \<and> rds_instance_body [] db =
              (if str_in ''large'' (DBInstanceClass db) \<or> str_in ''xlarge'' (DBInstanceClass db)
               then [rds_rightsizing_rec db] else []))
   \<and> (50 < dict_get service_costs ''Amazon Relational Database Service'' 0
        \<and> describe_db_instances w = Inr dbs
      \<longrightarrow> snd (analyze_rds_costs w service_costs) = [DescribeDBInstances])
   \<and> (50 < dict_get costs ''Amazon Relational Database Service'' 0
        \<and> describe_db_instances w' = Inr (pre @ bare # post)
        \<and> BackupRetentionPeriod bare = None
      \<longrightarrow> analyze_rds_costs w' costs =
            (concat (map (rds_instance_body []) pre)
               @ (if str_in ''large'' (DBInstanceClass bare)
                     \<or> str_in ''xlarge'' (DBInstanceClass bare)
                  then [rds_rightsizing_rec bare] else [])
               @ concat (map (rds_instance_body []) post),
             [DescribeDBInstances])
          \<and> analyze_rds_costs w' costs =
              analyze_rds_costs
                (w'\<lparr>describe_db_instances :=
                       Inr (pre @ bare\<lparr>BackupRetentionPeriod := Some 0\<rparr> # post)\<rparr>) costs)
   \<and> (50 < dict_get costs ''Amazon Relational Database Service'' 0
        \<and> describe_db_instances w' = Inr all_dbs
      \<longrightarrow> fst (analyze_rds_costs w' costs) =
            concat (map (\<lambda>db.
                      (if str_in ''large'' (DBInstanceClass db)
                          \<or> str_in ''xlarge'' (DBInstanceClass db)
                       then [rds_rightsizing_rec db] else [])
                      @ (if 7 < backup_retention_of db
                         then [rds_backup_rec db (backup_retention_of db)] else []))
                    all_dbs))
   \<and> backup_retention_of db =
        (case BackupRetentionPeriod db of None \<Rightarrow> 0 | Some n \<Rightarrow> n)
   \<and> rds_rightsizing_rec db =
        [(''type'', ''RDS_RIGHTSIZING''),
         (''resource'', DBInstanceIdentifier db),
         (''current_class'', DBInstanceClass db),
         (''recommendation'',
          ''Monitor CPU and memory utilization to determine if downsizing is possible''),
         (''potential_savings'', ''Up to 40% cost reduction'')]"
proof -
  have c1: "BackupRetentionPeriod db = None
      \<longrightarrow> backup_retention_of db = 0
          \<and> rds_instance_body [] db =
              rds_instance_body [] (db\<lparr>BackupRetentionPeriod := Some 0\<rparr>)
          \<and> filter is_backup_rec (rds_instance_body [] db) = []
          \<and> rds_instance_body [] db =
              (if str_in ''large'' (DBInstanceClass db) \<or> str_in ''xlarge'' (DBInstanceClass db)
               then [rds_rightsizing_rec db] else [])"
  proof (intro impI conjI)
    assume none: "BackupRetentionPeriod db = None"
    show zero: "backup_retention_of db = 0"
      using none by (simp add: backup_retention_of_def)
    show "rds_instance_body [] db =
            rds_instance_body [] (db\<lparr>BackupRetentionPeriod := Some 0\<rparr>)"
      using rds_instance_body_retention_zero [OF none] by simp
    show "filter is_backup_rec (rds_instance_body [] db) = []"
      using zero by (simp add: backup_recs_of_body)
    show "rds_instance_body [] db =
            (if str_in ''large'' (DBInstanceClass db) \<or> str_in ''xlarge'' (DBInstanceClass db)
             then [rds_rightsizing_rec db] else [])"
      using zero by (simp add: rds_instance_body_eq)
  qed
  have c2: "50 < dict_get service_costs ''Amazon Relational Database Service'' 0
        \<and> describe_db_instances w = Inr dbs
      \<longrightarrow> snd (analyze_rds_costs w service_costs) = [DescribeDBInstances]"
    by (simp add: analyze_rds_costs_ok)
  have c3: "50 < dict_get costs ''Amazon Relational Database Service'' 0
        \<and> describe_db_instances w' = Inr (pre @ bare # post)
        \<and> BackupRetentionPeriod bare = None
      \<longrightarrow> analyze_rds_costs w' costs =
            (concat (map (rds_instance_body []) pre)
               @ (if str_in ''large'' (DBInstanceClass bare)
                     \<or> str_in ''xlarge'' (DBInstanceClass bare)
                  then [rds_rightsizing_rec bare] else [])
               @ concat (map (rds_instance_body []) post),
             [DescribeDBInstances])
          \<and> analyze_rds_costs w' costs =
              analyze_rds_costs
                (w'\<lparr>describe_db_instances :=
                       Inr (pre @ bare\<lparr>BackupRetentionPeriod := Some 0\<rparr> # post)\<rparr>) costs"
  proof (intro impI)
    assume h: "50 < dict_get costs ''Amazon Relational Database Service'' 0
        \<and> describe_db_instances w' = Inr (pre @ bare # post)
        \<and> BackupRetentionPeriod bare = None"
    then have none: "BackupRetentionPeriod bare = None"
      by simp
    have zero: "backup_retention_of bare = 0"
      using none by (simp add: backup_retention_of_def)
    have here: "rds_instance_body [] bare =
            (if str_in ''large'' (DBInstanceClass bare) \<or> str_in ''xlarge'' (DBInstanceClass bare)
             then [rds_rightsizing_rec bare] else [])"
      using zero by (simp add: rds_instance_body_eq)
    have run: "analyze_rds_costs w' costs =
            (concat (map (rds_instance_body []) (pre @ bare # post)), [DescribeDBInstances])"
      using h by (simp add: analyze_rds_costs_ok)
    have other: "analyze_rds_costs
                (w'\<lparr>describe_db_instances :=
                       Inr (pre @ bare\<lparr>BackupRetentionPeriod := Some 0\<rparr> # post)\<rparr>) costs =
            (concat (map (rds_instance_body [])
                       (pre @ bare\<lparr>BackupRetentionPeriod := Some 0\<rparr> # post)),
             [DescribeDBInstances])"
      using h by (simp add: analyze_rds_costs_ok)
    show "analyze_rds_costs w' costs =
            (concat (map (rds_instance_body []) pre)
               @ (if str_in ''large'' (DBInstanceClass bare)
                     \<or> str_in ''xlarge'' (DBInstanceClass bare)
                  then [rds_rightsizing_rec bare] else [])
               @ concat (map (rds_instance_body []) post),
             [DescribeDBInstances])
          \<and> analyze_rds_costs w' costs =
              analyze_rds_costs
                (w'\<lparr>describe_db_instances :=
                       Inr (pre @ bare\<lparr>BackupRetentionPeriod := Some 0\<rparr> # post)\<rparr>) costs"
      unfolding run other
      using here rds_instance_body_retention_zero [OF none] by simp
  qed
  have body0: "rds_instance_body [] =
        (\<lambda>db. (if str_in ''large'' (DBInstanceClass db) \<or> str_in ''xlarge'' (DBInstanceClass db)
                then [rds_rightsizing_rec db] else [])
               @ (if 7 < backup_retention_of db
                  then [rds_backup_rec db (backup_retention_of db)] else []))"
    by (rule ext) (simp add: rds_instance_body_eq)
  have c4: "50 < dict_get costs ''Amazon Relational Database Service'' 0
        \<and> describe_db_instances w' = Inr all_dbs
      \<longrightarrow> fst (analyze_rds_costs w' costs) =
            concat (map (\<lambda>db.
                      (if str_in ''large'' (DBInstanceClass db)
                          \<or> str_in ''xlarge'' (DBInstanceClass db)
                       then [rds_rightsizing_rec db] else [])
                      @ (if 7 < backup_retention_of db
                         then [rds_backup_rec db (backup_retention_of db)] else []))
                    all_dbs)"
    using body0 by (simp add: analyze_rds_costs_ok)
  have c5: "backup_retention_of db =
        (case BackupRetentionPeriod db of None \<Rightarrow> 0 | Some n \<Rightarrow> n)"
    by (simp add: backup_retention_of_def)
  have c6: "rds_rightsizing_rec db =
        [(''type'', ''RDS_RIGHTSIZING''),
         (''resource'', DBInstanceIdentifier db),
         (''current_class'', DBInstanceClass db),
         (''recommendation'',
          ''Monitor CPU and memory utilization to determine if downsizing is possible''),
         (''potential_savings'', ''Up to 40% cost reduction'')]"
    by (simp add: rds_rightsizing_rec_def)
  from c1 c2 c3 c4 c5 c6 show ?thesis
    by blast
qed

theorem missing_retention_is_zero_witness:
  "backup_retention_of db_bare = 0
   \<and> rds_instance_body [] db_bare = [rds_rightsizing_rec db_bare]
   \<and> filter is_backup_rec (rds_instance_body [] db_bare) = []
   \<and> analyze_rds_costs w_example [(''Amazon Relational Database Service'', 60)] =
       ([rds_backup_rec db_eight 8, rds_rightsizing_rec db_bare], [DescribeDBInstances])
   \<and> analyze_rds_costs w_example [(''Amazon Relational Database Service'', 60)] =
       analyze_rds_costs
         (w_example\<lparr>describe_db_instances :=
            Inr ([db_week, db_eight] @ db_bare\<lparr>BackupRetentionPeriod := Some 0\<rparr> # [])\<rparr>)
         [(''Amazon Relational Database Service'', 60)]
   \<and> rds_rightsizing_rec db_bare =
        [(''type'', ''RDS_RIGHTSIZING''),
         (''resource'', ''db-0''),
         (''current_class'', ''db.m5.large''),
         (''recommendation'',
          ''Monitor CPU and memory utilization to determine if downsizing is possible''),
         (''potential_savings'', ''Up to 40% cost reduction'')]"
proof -
  have none: "BackupRetentionPeriod db_bare = None"
    by (simp add: db_bare_def)
  have large: "str_in ''large'' (DBInstanceClass db_bare)"
    by (simp add: db_bare_def)
  have cost: "50 < dict_get [(''Amazon Relational Database Service'', 60)]
                ''Amazon Relational Database Service'' 0"
    by (simp add: dict_get_def)
  have query: "describe_db_instances w_example = Inr ([db_week, db_eight] @ db_bare # [])"
    by (simp add: w_example_def)
  note t = missing_retention_is_zero
      [where db = db_bare and service_costs = "[(''Amazon Relational Database Service'', 60)]"
         and w = w_example and dbs = "[db_week, db_eight] @ db_bare # []"
         and costs = "[(''Amazon Relational Database Service'', 60)]" and w' = w_example
         and pre = "[db_week, db_eight]" and bare = db_bare and post = "[]"
         and all_dbs = "[db_week, db_eight] @ db_bare # []"]
  from t none have 1: "backup_retention_of db_bare = 0"
    by blast
  from t none have "rds_instance_body [] db_bare =
      (if str_in ''large'' (DBInstanceClass db_bare) \<or> str_in ''xlarge'' (DBInstanceClass db_bare)
       then [rds_rightsizing_rec db_bare] else [])"
    by blast
  with large have 2: "rds_instance_body [] db_bare = [rds_rightsizing_rec db_bare]"
    by simp
  from t none have 3: "filter is_backup_rec (rds_instance_body [] db_bare) = []"
    by blast
  from t cost query none have run: "analyze_rds_costs w_example
        [(''Amazon Relational Database Service'', 60)] =
      (concat (map (rds_instance_body []) [db_week, db_eight])
         @ (if str_in ''large'' (DBInstanceClass db_bare)
               \<or> str_in ''xlarge'' (DBInstanceClass db_bare)
            then [rds_rightsizing_rec db_bare] else [])
         @ concat (map (rds_instance_body []) []),
       [DescribeDBInstances])"
    by blast
  have others: "rds_instance_body [] db_week = []"
    "rds_instance_body [] db_eight = [rds_backup_rec db_eight 8]"
    by (simp_all add: rds_instance_body_eq db_week_def db_eight_def backup_retention_of_def)
  from run large have 4: "analyze_rds_costs w_example
        [(''Amazon Relational Database Service'', 60)] =
      ([rds_backup_rec db_eight 8, rds_rightsizing_rec db_bare], [DescribeDBInstances])"
    by (simp add: others)
  from t cost query none have 5: "analyze_rds_costs w_example
        [(''Amazon Relational Database Service'', 60)] =
      analyze_rds_costs
         (w_example\<lparr>describe_db_instances :=
            Inr ([db_week, db_eight] @ db_bare\<lparr>BackupRetentionPeriod := Some 0\<rparr> # [])\<rparr>)
         [(''Amazon Relational Database Service'', 60)]"
    by blast
  from t have "rds_rightsizing_rec db_bare =
        [(''type'', ''RDS_RIGHTSIZING''),
         (''resource'', DBInstanceIdentifier db_bare),
         (''current_class'', DBInstanceClass db_bare),
         (''recommendation'',
          ''Monitor CPU and memory utilization to determine if downsizing is possible''),
         (''potential_savings'', ''Up to 40% cost reduction'')]"
    by blast
  then have 6: "rds_rightsizing_rec db_bare =
        [(''type'', ''RDS_RIGHTSIZING''),
         (''resource'', ''db-0''),
         (''current_class'', ''db.m5.large''),
         (''recommendation'',
          ''Monitor CPU and memory utilization to determine if downsizing is possible''),
         (''potential_savings'', ''Up to 40% cost reduction'')]"
    by (simp add: db_bare_def)
  from 1 2 3 4 5 6 show ?thesis
    by blast
qed

subsection \<open>Order of the recommendations in a run\<close>

lemma aggregate_busy_groups: "aggregate busy_groups = (busy_costs, 235)"
  by code_simp

lemma to_float_235: "to_float 235 = 235"
  by code_simp

text \<open>
  Claim C7.  In every run that gets past the billing query, the list that the handler
  hands to the formatter, counts in its answer and tests before notifying is the compute
  analyzer's list, then the database analyzer's, then the storage analyzer's, then the
  unused-resource analyzer's, and the services are called in that order.  The compute
  analyzer's list is the loop body's output for each running instance in the order of the
  inventory answer (reservation by reservation, instance by instance), the database
  analyzer's likewise for each database instance, and the unused-resource analyzer's is
  one entry per stopped instance in inventory order followed by one per volume in
  inventory order.  Nothing is sorted.  Under the module's own scope the formatter raises,
  so there the list shows in the trace only; under a scope that binds the two names of
  the template it shows in the rendered report and in the count of the answer.
\<close>

theorem recommendations_in_fixed_order:
  "(environ ''PROJECT_NAME'' = Some project_name
      \<and> environ ''ENVIRONMENT'' = Some environment
      \<and> environ ''SNS_TOPIC_ARN'' = Some topic
      \<and> get_cost_and_usage w (today w - 30) (today w) project_name = Inr results
    \<longrightarrow> handler_in sc environ w =
          (case generate_cost_report sc w (fst (aggregate results)) (snd (aggregate results))
                  (fst (analyze_ec2_costs w (fst (aggregate results)))
                   @ fst (analyze_rds_costs w (fst (aggregate results)))
                   @ analyze_storage_costs (fst (aggregate results))
                   @ fst (check_unused_resources w)) of
             Inl e \<Rightarrow>
               (Inr (error_response e),
                GetCostAndUsage (today w - 30) (today w) project_name
                  # snd (analyze_ec2_costs w (fst (aggregate results)))
                  @ snd (analyze_rds_costs w (fst (aggregate results)))
                  @ snd (check_unused_resources w) @ [error_print e])
           | Inr report \<Rightarrow>
               (Inr \<lparr>statusCode = 200,
                    body = JObject
                      [(''message'', JString ''Cost optimization analysis completed''),
                       (''total_cost'', JFloat (to_float (snd (aggregate results)))),
                       (''recommendations_count'',
                        JInt (int (length
                          (fst (analyze_ec2_costs w (fst (aggregate results)))
                           @ fst (analyze_rds_costs w (fst (aggregate results)))
                           @ analyze_storage_costs (fst (aggregate results))
                           @ fst (check_unused_resources w)))))]\<rparr>,
                GetCostAndUsage (today w - 30) (today w) project_name
                  # snd (analyze_ec2_costs w (fst (aggregate results)))
                  @ snd (analyze_rds_costs w (fst (aggregate results)))
                  @ snd (check_unused_resources w)
                  @ (if fst (analyze_ec2_costs w (fst (aggregate results)))
                        @ fst (analyze_rds_costs w (fst (aggregate results)))
                        @ analyze_storage_costs (fst (aggregate results))
                        @ fst (check_unused_resources w) \<noteq> []
                     then send_notification w topic report project_name environment
                     else [])))
        \<and> handler environ w =
            (Inr (error_response (NameError ''project_name'')),
             GetCostAndUsage (today w - 30) (today w) project_name
               # snd (analyze_ec2_costs w (fst (aggregate results)))
               @ snd (analyze_rds_costs w (fst (aggregate results)))
               @ snd (check_unused_resources w)
               @ [error_print (NameError ''project_name'')]))
   \<and> (environ ''PROJECT_NAME'' = Some project_name
        \<and> environ ''ENVIRONMENT'' = Some environment
        \<and> environ ''SNS_TOPIC_ARN'' = Some topic
        \<and> get_cost_and_usage w (today w - 30) (today w) project_name = Inr results
        \<and> sc ''project_name'' = Some bound_project
        \<and> sc ''environment'' = Some bound_environment
      \<longrightarrow> (\<exists>report.
             generate_cost_report sc w (fst (aggregate results)) (snd (aggregate results))
               (fst (analyze_ec2_costs w (fst (aggregate results)))
                @ fst (analyze_rds_costs w (fst (aggregate results)))
                @ analyze_storage_costs (fst (aggregate results))
                @ fst (check_unused_resources w)) = Inr report))
   \<and> fst (collect_recommendations w service_costs) =
       fst (analyze_ec2_costs w service_costs) @ fst (analyze_rds_costs w service_costs)
         @ analyze_storage_costs service_costs @ fst (check_unused_resources w)
   \<and> (100 < dict_get service_costs ''Amazon Elastic Compute Cloud - Compute'' 0
        \<and> describe_instances w running_filters = Inr reservations
      \<longrightarrow> fst (analyze_ec2_costs w service_costs) =
            concat (map (ec2_instance_body []) (concat reservations)))
   \<and> (50 < dict_get service_costs ''Amazon Relational Database Service'' 0
        \<and> describe_db_instances w = Inr dbs
      \<longrightarrow> fst (analyze_rds_costs w service_costs) = concat (map (rds_instance_body []) dbs))
   \<and> (describe_instances w stopped_filters = Inr stopped
        \<and> describe_volumes w volume_filters = Inr vols
      \<longrightarrow> fst (check_unused_resources w) =
            map unused_instance_rec (concat stopped) @ map unattached_volume_rec vols)"
proof -
  have c1: "environ ''PROJECT_NAME'' = Some project_name
      \<and> environ ''ENVIRONMENT'' = Some environment
      \<and> environ ''SNS_TOPIC_ARN'' = Some topic
      \<and> get_cost_and_usage w (today w - 30) (today w) project_name = Inr results
    \<longrightarrow> handler_in sc environ w =
          (case generate_cost_report sc w (fst (aggregate results)) (snd (aggregate results))
                  (fst (analyze_ec2_costs w (fst (aggregate results)))
                   @ fst (analyze_rds_costs w (fst (aggregate results)))
                   @ analyze_storage_costs (fst (aggregate results))
                   @ fst (check_unused_resources w)) of
             Inl e \<Rightarrow>
               (Inr (error_response e),
                GetCostAndUsage (today w - 30) (today w) project_name
                  # snd (analyze_ec2_costs w (fst (aggregate results)))
                  @ snd (analyze_rds_costs w (fst (aggregate results)))
                  @ snd (check_unused_resources w) @ [error_print e])
           | Inr report \<Rightarrow>
               (Inr \<lparr>statusCode = 200,
                    body = JObject
                      [(''message'', JString ''Cost optimization analysis completed''),
                       (''total_cost'', JFloat (to_float (snd (aggregate results)))),
                       (''recommendations_count'',
                        JInt (int (length
                          (fst (analyze_ec2_costs w (fst (aggregate results)))
                           @ fst (analyze_rds_costs w (fst (aggregate results)))
                           @ analyze_storage_costs (fst (aggregate results))
                           @ fst (check_unused_resources w)))))]\<rparr>,
                GetCostAndUsage (today w - 30) (today w) project_name
                  # snd (analyze_ec2_costs w (fst (aggregate results)))
                  @ snd (analyze_rds_costs w (fst (aggregate results)))
                  @ snd (check_unused_resources w)
                  @ (if fst (analyze_ec2_costs w (fst (aggregate results)))
                        @ fst (analyze_rds_costs w (fst (aggregate results)))
                        @ analyze_storage_costs (fst (aggregate results))
                        @ fst (check_unused_resources w) \<noteq> []
                     then send_notification w topic report project_name environment
                     else [])))
        \<and> handler environ w =
            (Inr (error_response (NameError ''project_name'')),
             GetCostAndUsage (today w - 30) (today w) project_name
               # snd (analyze_ec2_costs w (fst (aggregate results)))
               @ snd (analyze_rds_costs w (fst (aggregate results)))
               @ snd (check_unused_resources w)
               @ [error_print (NameError ''project_name'')])"
  proof (intro impI)
    assume h: "environ ''PROJECT_NAME'' = Some project_name
      \<and> environ ''ENVIRONMENT'' = Some environment
      \<and> environ ''SNS_TOPIC_ARN'' = Some topic
      \<and> get_cost_and_usage w (today w - 30) (today w) project_name = Inr results"
    then have a: "environ ''PROJECT_NAME'' = Some project_name"
      and b: "environ ''ENVIRONMENT'' = Some environment"
      and c: "environ ''SNS_TOPIC_ARN'' = Some topic"
      and d: "get_cost_and_usage w (today w - 30) (today w) project_name = Inr results"
      by simp_all
    show "handler_in sc environ w =
          (case generate_cost_report sc w (fst (aggregate results)) (snd (aggregate results))
                  (fst (analyze_ec2_costs w (fst (aggregate results)))
                   @ fst (analyze_rds_costs w (fst (aggregate results)))
                   @ analyze_storage_costs (fst (aggregate results))
                   @ fst (check_unused_resources w)) of
             Inl e \<Rightarrow>
               (Inr (error_response e),
                GetCostAndUsage (today w - 30) (today w) project_name
                  # snd (analyze_ec2_costs w (fst (aggregate results)))
                  @ snd (analyze_rds_costs w (fst (aggregate results)))
                  @ snd (check_unused_resources w) @ [error_print e])
           | Inr report \<Rightarrow>
               (Inr \<lparr>statusCode = 200,
                    body = JObject
                      [(''message'', JString ''Cost optimization analysis completed''),
                       (''total_cost'', JFloat (to_float (snd (aggregate results)))),
                       (''recommendations_count'',
                        JInt (int (length
                          (fst (analyze_ec2_costs w (fst (aggregate results)))
                           @ fst (analyze_rds_costs w (fst (aggregate results)))
                           @ analyze_storage_costs (fst (aggregate results))
                           @ fst (check_unused_resources w)))))]\<rparr>,
                GetCostAndUsage (today w - 30) (today w) project_name
                  # snd (analyze_ec2_costs w (fst (aggregate results)))
                  @ snd (analyze_rds_costs w (fst (aggregate results)))
                  @ snd (check_unused_resources w)
                  @ (if fst (analyze_ec2_costs w (fst (aggregate results)))
                        @ fst (analyze_rds_costs w (fst (aggregate results)))
                        @ analyze_storage_costs (fst (aggregate results))
                        @ fst (check_unused_resources w) \<noteq> []
                     then send_notification w topic report project_name environment
                     else [])))
        \<and> handler environ w =
            (Inr (error_response (NameError ''project_name'')),
             GetCostAndUsage (today w - 30) (today w) project_name
               # snd (analyze_ec2_costs w (fst (aggregate results)))
               @ snd (analyze_rds_costs w (fst (aggregate results)))
               @ snd (check_unused_resources w)
               @ [error_print (NameError ''project_name'')])"
      using handler_in_after_billing [OF a b c d, of sc] handler_after_billing [OF a b c d]
      by (simp add: collect_recommendations_fst collect_recommendations_snd
          split: sum.splits)
  qed
  have c2: "environ ''PROJECT_NAME'' = Some project_name
        \<and> environ ''ENVIRONMENT'' = Some environment
        \<and> environ ''SNS_TOPIC_ARN'' = Some topic
        \<and> get_cost_and_usage w (today w - 30) (today w) project_name = Inr results
        \<and> sc ''project_name'' = Some bound_project
        \<and> sc ''environment'' = Some bound_environment
      \<longrightarrow> (\<exists>report.
             generate_cost_report sc w (fst (aggregate results)) (snd (aggregate results))
               (fst (analyze_ec2_costs w (fst (aggregate results)))
                @ fst (analyze_rds_costs w (fst (aggregate results)))
                @ analyze_storage_costs (fst (aggregate results))
                @ fst (check_unused_resources w)) = Inr report)"
  proof (intro impI)
    assume h: "environ ''PROJECT_NAME'' = Some project_name
        \<and> environ ''ENVIRONMENT'' = Some environment
        \<and> environ ''SNS_TOPIC_ARN'' = Some topic
        \<and> get_cost_and_usage w (today w - 30) (today w) project_name = Inr results
        \<and> sc ''project_name'' = Some bound_project
        \<and> sc ''environment'' = Some bound_environment"
    then have p: "sc ''project_name'' = Some bound_project"
      and e: "sc ''environment'' = Some bound_environment"
      by simp_all
    show "\<exists>report.
             generate_cost_report sc w (fst (aggregate results)) (snd (aggregate results))
               (fst (analyze_ec2_costs w (fst (aggregate results)))
                @ fst (analyze_rds_costs w (fst (aggregate results)))
                @ analyze_storage_costs (fst (aggregate results))
                @ fst (check_unused_resources w)) = Inr report"
      using generate_cost_report_bound
        [OF p e well_formed_collect [of w "fst (aggregate results)"],
         of w "fst (aggregate results)" "snd (aggregate results)"]
      by (simp add: collect_recommendations_fst)
  qed
  have c3: "fst (collect_recommendations w service_costs) =
       fst (analyze_ec2_costs w service_costs) @ fst (analyze_rds_costs w service_costs)
         @ analyze_storage_costs service_costs @ fst (check_unused_resources w)"
    by (rule collect_recommendations_fst)
  have c4: "100 < dict_get service_costs ''Amazon Elastic Compute Cloud - Compute'' 0
        \<and> describe_instances w running_filters = Inr reservations
      \<longrightarrow> fst (analyze_ec2_costs w service_costs) =
            concat (map (ec2_instance_body []) (concat reservations))"
    by (simp add: analyze_ec2_costs_ok)
  have c5: "50 < dict_get service_costs ''Amazon Relational Database Service'' 0
        \<and> describe_db_instances w = Inr dbs
      \<longrightarrow> fst (analyze_rds_costs w service_costs) = concat (map (rds_instance_body []) dbs)"
    by (simp add: analyze_rds_costs_ok)
  have c6: "describe_instances w stopped_filters = Inr stopped
        \<and> describe_volumes w volume_filters = Inr vols
      \<longrightarrow> fst (check_unused_resources w) =
            map unused_instance_rec (concat stopped) @ map unattached_volume_rec vols"
    by (simp add: check_unused_resources_ok)
  from c1 c2 c3 c4 c5 c6 show ?thesis
    by blast
qed

theorem recommendations_in_fixed_order_witness:
  "(\<exists>report.
      generate_cost_report scope_apex w_busy busy_costs 235
        [ec2_rightsizing_rec inst_large, ec2_spot_rec inst_large,
         rds_backup_rec db_eight 8, rds_rightsizing_rec db_bare,
         s3_lifecycle_rec,
         unused_instance_rec inst_stopped, unattached_volume_rec vol_fifty] = Inr report
      \<and> handler_in scope_apex env_apex w_busy =
          (Inr \<lparr>statusCode = 200,
               body = JObject
                 [(''message'', JString ''Cost optimization analysis completed''),
                  (''total_cost'', JFloat 235),
                  (''recommendations_count'', JInt 7)]\<rparr>,
           [GetCostAndUsage 19670 19700 ''apex'',
            DescribeInstances running_filters,
            DescribeDBInstances,
            DescribeInstances stopped_filters,
            DescribeVolumes volume_filters,
            Publish ''arn:aws:sns:us-east-1:1:costs''
              ''Cost Optimization Report - apex (dev)'' report,
            Print ''Cost optimization report sent successfully'']))
   \<and> handler env_apex w_busy =
       (Inr (error_response (NameError ''project_name'')),
        [GetCostAndUsage 19670 19700 ''apex'',
         DescribeInstances running_filters,
         DescribeDBInstances,
         DescribeInstances stopped_filters,
         DescribeVolumes volume_filters,
         error_print (NameError ''project_name'')])
   \<and> fst (collect_recommendations w_busy busy_costs) =
       [ec2_rightsizing_rec inst_large, ec2_spot_rec inst_large,
        rds_backup_rec db_eight 8, rds_rightsizing_rec db_bare,
        s3_lifecycle_rec,
        unused_instance_rec inst_stopped, unattached_volume_rec vol_fifty]
   \<and> map rec_type (fst (collect_recommendations w_busy busy_costs)) =
       [Some ''EC2_RIGHTSIZING'', Some ''EC2_SPOT_INSTANCES'',
        Some ''RDS_BACKUP_OPTIMIZATION'', Some ''RDS_RIGHTSIZING'',
        Some ''S3_LIFECYCLE_OPTIMIZATION'',
        Some ''UNUSED_EC2_INSTANCE'', Some ''UNATTACHED_EBS_VOLUME'']"
proof -
  have billing: "get_cost_and_usage w_busy (today w_busy - 30) (today w_busy) ''apex''
                   = Inr busy_groups"
    by (simp add: w_busy_def)
  have day: "today w_busy = 19700"
    by (simp add: w_busy_def w_example_def)
  have agg: "fst (aggregate busy_groups) = busy_costs" "snd (aggregate busy_groups) = 235"
    by (simp_all add: aggregate_busy_groups)
  have sc: "scope_apex ''project_name'' = Some ''apex''"
    "scope_apex ''environment'' = Some ''dev''"
    by (simp_all add: scope_apex_def)
  have ec2_cost: "100 < dict_get busy_costs ''Amazon Elastic Compute Cloud - Compute'' 0"
    by (simp add: dict_get_def busy_costs_def)
  have rds_cost: "50 < dict_get busy_costs ''Amazon Relational Database Service'' 0"
    by (simp add: dict_get_def busy_costs_def)
  have running: "describe_instances w_busy running_filters
                   = Inr [[inst_large], [inst_small_spot]]"
    by (simp add: w_busy_def w_example_def example_inventory_running)
  have stopped: "describe_instances w_busy stopped_filters = Inr [[inst_stopped]]"
    by (simp add: w_busy_def w_example_def example_inventory_stopped)
  have dbs: "describe_db_instances w_busy = Inr [db_week, db_eight, db_bare]"
    by (simp add: w_busy_def w_example_def)
  have vols: "describe_volumes w_busy volume_filters = Inr [vol_fifty]"
    by (simp add: w_busy_def w_example_def vol_fifty_def)
  have sent: "publish w_busy topic subject message = Inr ()" for topic subject message
    by (simp add: w_busy_def w_example_def)
  note t = recommendations_in_fixed_order
      [where environ = env_apex and project_name = "''apex''" and environment = "''dev''"
         and topic = "''arn:aws:sns:us-east-1:1:costs''" and w = w_busy
         and results = busy_groups and sc = scope_apex
         and bound_project = "''apex''" and bound_environment = "''dev''"
         and service_costs = busy_costs
         and reservations = "[[inst_large], [inst_small_spot]]"
         and dbs = "[db_week, db_eight, db_bare]" and stopped = "[[inst_stopped]]"
         and vols = "[vol_fifty]"]
  from t ec2_cost running have "fst (analyze_ec2_costs w_busy busy_costs) =
      concat (map (ec2_instance_body []) (concat [[inst_large], [inst_small_spot]]))"
    by blast
  then have ec2: "fst (analyze_ec2_costs w_busy busy_costs) =
      [ec2_rightsizing_rec inst_large, ec2_spot_rec inst_large]"
    by (simp add: ec2_instance_body_def Let_def inst_large_def inst_small_spot_def
        is_large_type_examples)
  from t rds_cost dbs have "fst (analyze_rds_costs w_busy busy_costs) =
      concat (map (rds_instance_body []) [db_week, db_eight, db_bare])"
    by blast
  then have rds: "fst (analyze_rds_costs w_busy busy_costs) =
      [rds_backup_rec db_eight 8, rds_rightsizing_rec db_bare]"
    by (simp add: rds_instance_body_eq backup_retention_of_def db_week_def db_eight_def
        db_bare_def)
  have storage: "analyze_storage_costs busy_costs = [s3_lifecycle_rec]"
    by (simp add: analyze_storage_costs_def busy_costs_def dict_get_def Let_def)
  from t stopped vols have "fst (check_unused_resources w_busy) =
      map unused_instance_rec (concat [[inst_stopped]]) @ map unattached_volume_rec [vol_fifty]"
    by blast
  then have unused: "fst (check_unused_resources w_busy) =
      [unused_instance_rec inst_stopped, unattached_volume_rec vol_fifty]"
    by simp
  have ev: "snd (analyze_ec2_costs w_busy busy_costs) = [DescribeInstances running_filters]"
    "snd (analyze_rds_costs w_busy busy_costs) = [DescribeDBInstances]"
    "snd (check_unused_resources w_busy) =
       [DescribeInstances stopped_filters, DescribeVolumes volume_filters]"
    using ec2_cost running rds_cost dbs stopped vols
    by (simp_all add: analyze_ec2_costs_ok analyze_rds_costs_ok check_unused_resources_ok)
  from t have "fst (collect_recommendations w_busy busy_costs) =
       fst (analyze_ec2_costs w_busy busy_costs) @ fst (analyze_rds_costs w_busy busy_costs)
         @ analyze_storage_costs busy_costs @ fst (check_unused_resources w_busy)"
    by blast
  then have list: "fst (collect_recommendations w_busy busy_costs) =
       [ec2_rightsizing_rec inst_large, ec2_spot_rec inst_large,
        rds_backup_rec db_eight 8, rds_rightsizing_rec db_bare,
        s3_lifecycle_rec,
        unused_instance_rec inst_stopped, unattached_volume_rec vol_fifty]"
    by (simp add: ec2 rds storage unused)
  have types: "map rec_type (fst (collect_recommendations w_busy busy_costs)) =
       [Some ''EC2_RIGHTSIZING'', Some ''EC2_SPOT_INSTANCES'',
        Some ''RDS_BACKUP_OPTIMIZATION'', Some ''RDS_RIGHTSIZING'',
        Some ''S3_LIFECYCLE_OPTIMIZATION'',
        Some ''UNUSED_EC2_INSTANCE'', Some ''UNATTACHED_EBS_VOLUME'']"
    unfolding list
    by (simp add: rec_type_def ec2_rightsizing_rec_def ec2_spot_rec_def
        rds_rightsizing_rec_def rds_backup_rec_def s3_lifecycle_rec_def
        unused_instance_rec_def unattached_volume_rec_def)
  from t env_apex_reads billing sc obtain report where report:
    "generate_cost_report scope_apex w_busy (fst (aggregate busy_groups))
       (snd (aggregate busy_groups))
       (fst (analyze_ec2_costs w_busy (fst (aggregate busy_groups)))
        @ fst (analyze_rds_costs w_busy (fst (aggregate busy_groups)))
        @ analyze_storage_costs (fst (aggregate busy_groups))
        @ fst (check_unused_resources w_busy)) = Inr report"
    by blast
  then have report': "generate_cost_report scope_apex w_busy busy_costs 235
        [ec2_rightsizing_rec inst_large, ec2_spot_rec inst_large,
         rds_backup_rec db_eight 8, rds_rightsizing_rec db_bare,
         s3_lifecycle_rec,
         unused_instance_rec inst_stopped, unattached_volume_rec vol_fifty] = Inr report"
    by (simp add: agg ec2 rds storage unused)
  from t env_apex_reads billing
  have run: "handler_in scope_apex env_apex w_busy =
          (case generate_cost_report scope_apex w_busy (fst (aggregate busy_groups))
                  (snd (aggregate busy_groups))
                  (fst (analyze_ec2_costs w_busy (fst (aggregate busy_groups)))
                   @ fst (analyze_rds_costs w_busy (fst (aggregate busy_groups)))
                   @ analyze_storage_costs (fst (aggregate busy_groups))
                   @ fst (check_unused_resources w_busy)) of
             Inl e \<Rightarrow>
               (Inr (error_response e),
                GetCostAndUsage (today w_busy - 30) (today w_busy) ''apex''
                  # snd (analyze_ec2_costs w_busy (fst (aggregate busy_groups)))
                  @ snd (analyze_rds_costs w_busy (fst (aggregate busy_groups)))
                  @ snd (check_unused_resources w_busy) @ [error_print e])
           | Inr report \<Rightarrow>
               (Inr \<lparr>statusCode = 200,
                    body = JObject
                      [(''message'', JString ''Cost optimization analysis completed''),
                       (''total_cost'', JFloat (to_float (snd (aggregate busy_groups)))),
                       (''recommendations_count'',
                        JInt (int (length
                          (fst (analyze_ec2_costs w_busy (fst (aggregate busy_groups)))
                           @ fst (analyze_rds_costs w_busy (fst (aggregate busy_groups)))
                           @ analyze_storage_costs (fst (aggregate busy_groups))
                           @ fst (check_unused_resources w_busy)))))]\<rparr>,
                GetCostAndUsage (today w_busy - 30) (today w_busy) ''apex''
                  # snd (analyze_ec2_costs w_busy (fst (aggregate busy_groups)))
                  @ snd (analyze_rds_costs w_busy (fst (aggregate busy_groups)))
                  @ snd (check_unused_resources w_busy)
                  @ (if fst (analyze_ec2_costs w_busy (fst (aggregate busy_groups)))
                        @ fst (analyze_rds_costs w_busy (fst (aggregate busy_groups)))
                        @ analyze_storage_costs (fst (aggregate busy_groups))
                        @ fst (check_unused_resources w_busy) \<noteq> []
                     then send_notification w_busy ''arn:aws:sns:us-east-1:1:costs'' report
                            ''apex'' ''dev''
                     else [])))"
    by blast
  have bound: "handler_in scope_apex env_apex w_busy =
          (Inr \<lparr>statusCode = 200,
               body = JObject
                 [(''message'', JString ''Cost optimization analysis completed''),
                  (''total_cost'', JFloat 235),
                  (''recommendations_count'', JInt 7)]\<rparr>,
           [GetCostAndUsage 19670 19700 ''apex'',
            DescribeInstances running_filters,
            DescribeDBInstances,
            DescribeInstances stopped_filters,
            DescribeVolumes volume_filters,
            Publish ''arn:aws:sns:us-east-1:1:costs''
              ''Cost Optimization Report - apex (dev)'' report,
            Print ''Cost optimization report sent successfully''])"
    unfolding run
    using report'
    by (simp add: agg ec2 rds storage unused ev day to_float_235 send_notification_def
        subject_of_def sent)
  from t env_apex_reads billing
  have "handler env_apex w_busy =
            (Inr (error_response (NameError ''project_name'')),
             GetCostAndUsage (today w_busy - 30) (today w_busy) ''apex''
               # snd (analyze_ec2_costs w_busy (fst (aggregate busy_groups)))
               @ snd (analyze_rds_costs w_busy (fst (aggregate busy_groups)))
               @ snd (check_unused_resources w_busy)
               @ [error_print (NameError ''project_name'')])"
    by blast
  then have unbound: "handler env_apex w_busy =
       (Inr (error_response (NameError ''project_name'')),
        [GetCostAndUsage 19670 19700 ''apex'',
         DescribeInstances running_filters,
         DescribeDBInstances,
         DescribeInstances stopped_filters,
         DescribeVolumes volume_filters,
         error_print (NameError ''project_name'')])"
    by (simp add: agg ev day)
  from report' bound unbound list types show ?thesis
    by blast
qed

end
